theory Spec2Isabelle
  imports Complex_Main
begin

section \<open>JavaScript numbers\<close>

text \<open>
  Every numeric value of \<^verbatim>\<open>index.ts\<close> is a JavaScript \<^verbatim>\<open>number\<close>. The model keeps
  the four kinds of value an IEEE double can be (a finite value, the two infinities and
  NaN) and the way the arithmetic and comparison operators treat them, because the
  controller divides by quantities that can be zero. Finite values are exact rationals:
  rounding is not modelled, and the sign of a zero is not distinguished (a zero divisor
  acts as \<^verbatim>\<open>+0\<close>, which is what \<^verbatim>\<open>clientHeight\<close> and products of non-negative
  values yield). An identity of exact arithmetic such as \<open>(a / b) * b = a\<close> therefore
  holds in the model where the doubles of the code can differ in the last digit; the
  theorems on the claims state no value that rests on such an identity.
\<close>

datatype number = Num rat | PosInfinity | NegInfinity | NaN

fun num_neg :: "number \<Rightarrow> number" where
  "num_neg (Num a) = Num (- a)"
| "num_neg PosInfinity = NegInfinity"
| "num_neg NegInfinity = PosInfinity"
| "num_neg NaN = NaN"

text \<open>\<^verbatim>\<open>a + b\<close>\<close>

fun num_add :: "number \<Rightarrow> number \<Rightarrow> number" where
  "num_add (Num a) (Num b) = Num (a + b)"
| "num_add NaN _ = NaN"
| "num_add _ NaN = NaN"
| "num_add PosInfinity NegInfinity = NaN"
| "num_add NegInfinity PosInfinity = NaN"
| "num_add PosInfinity _ = PosInfinity"
| "num_add NegInfinity _ = NegInfinity"
| "num_add (Num a) b = b"

text \<open>\<^verbatim>\<open>a - b\<close>\<close>

definition num_sub :: "number \<Rightarrow> number \<Rightarrow> number" where
  "num_sub a b = num_add a (num_neg b)"

text \<open>The infinity that a non-zero finite factor of sign \<open>a\<close> turns \<open>+Infinity\<close> into.\<close>

definition signed_infinity :: "rat \<Rightarrow> number" where
  "signed_infinity a = (if a = 0 then NaN else if 0 < a then PosInfinity else NegInfinity)"

text \<open>\<^verbatim>\<open>a * b\<close>: zero times an infinity is NaN.\<close>

fun num_mul :: "number \<Rightarrow> number \<Rightarrow> number" where
  "num_mul (Num a) (Num b) = Num (a * b)"
| "num_mul NaN _ = NaN"
| "num_mul _ NaN = NaN"
| "num_mul (Num a) PosInfinity = signed_infinity a"
| "num_mul (Num a) NegInfinity = signed_infinity (- a)"
| "num_mul PosInfinity (Num b) = signed_infinity b"
| "num_mul NegInfinity (Num b) = signed_infinity (- b)"
| "num_mul PosInfinity PosInfinity = PosInfinity"
| "num_mul NegInfinity NegInfinity = PosInfinity"
| "num_mul PosInfinity NegInfinity = NegInfinity"
| "num_mul NegInfinity PosInfinity = NegInfinity"

text \<open>
  \<^verbatim>\<open>a / b\<close>: a non-zero finite value over zero is an infinity, zero over zero is NaN,
  a finite value over an infinity is zero, an infinity over an infinity is NaN.
\<close>

fun num_div :: "number \<Rightarrow> number \<Rightarrow> number" where
  "num_div (Num a) (Num b) = (if b = 0 then signed_infinity a else Num (a / b))"
| "num_div NaN _ = NaN"
| "num_div _ NaN = NaN"
| "num_div (Num a) PosInfinity = Num 0"
| "num_div (Num a) NegInfinity = Num 0"
| "num_div PosInfinity (Num b) = (if 0 \<le> b then PosInfinity else NegInfinity)"
| "num_div NegInfinity (Num b) = (if 0 \<le> b then NegInfinity else PosInfinity)"
| "num_div PosInfinity PosInfinity = NaN"
| "num_div PosInfinity NegInfinity = NaN"
| "num_div NegInfinity PosInfinity = NaN"
| "num_div NegInfinity NegInfinity = NaN"

text \<open>
  \<^verbatim>\<open>a % b\<close>: the remainder of the division truncated towards zero, with the sign of the
  dividend; NaN for a zero divisor or an infinite dividend; the dividend itself for an
  infinite divisor.
\<close>

definition rat_trunc :: "rat \<Rightarrow> int" where
  "rat_trunc q = (if 0 \<le> q then \<lfloor>q\<rfloor> else \<lceil>q\<rceil>)"

fun num_rem :: "number \<Rightarrow> number \<Rightarrow> number" where
  "num_rem (Num a) (Num b) = (if b = 0 then NaN else Num (a - b * of_int (rat_trunc (a / b))))"
| "num_rem (Num a) PosInfinity = Num a"
| "num_rem (Num a) NegInfinity = Num a"
| "num_rem _ _ = NaN"

text \<open>\<^verbatim>\<open>a < b\<close>, \<^verbatim>\<open>a == b\<close>, \<^verbatim>\<open>a <= b\<close>, \<^verbatim>\<open>a >= b\<close>, \<^verbatim>\<open>a > b\<close>: false as soon as one side is NaN.\<close>

fun num_lt :: "number \<Rightarrow> number \<Rightarrow> bool" where
  "num_lt (Num a) (Num b) = (a < b)"
| "num_lt NaN _ = False"
| "num_lt _ NaN = False"
| "num_lt (Num a) PosInfinity = True"
| "num_lt (Num a) NegInfinity = False"
| "num_lt NegInfinity (Num b) = True"
| "num_lt NegInfinity PosInfinity = True"
| "num_lt NegInfinity NegInfinity = False"
| "num_lt PosInfinity (Num b) = False"
| "num_lt PosInfinity PosInfinity = False"
| "num_lt PosInfinity NegInfinity = False"

definition num_eq :: "number \<Rightarrow> number \<Rightarrow> bool" where
  "num_eq a b = (a \<noteq> NaN \<and> a = b)"

definition num_le :: "number \<Rightarrow> number \<Rightarrow> bool" where
  "num_le a b = (num_lt a b \<or> num_eq a b)"

definition num_ge :: "number \<Rightarrow> number \<Rightarrow> bool" where
  "num_ge a b = num_le b a"

definition num_gt :: "number \<Rightarrow> number \<Rightarrow> bool" where
  "num_gt a b = num_lt b a"

text \<open>\<^verbatim>\<open>Math.floor\<close> and \<^verbatim>\<open>Math.ceil\<close> leave the infinities and NaN as they are.\<close>

fun Math_floor :: "number \<Rightarrow> number" where
  "Math_floor (Num a) = Num (of_int \<lfloor>a\<rfloor>)"
| "Math_floor x = x"

fun Math_ceil :: "number \<Rightarrow> number" where
  "Math_ceil (Num a) = Num (of_int \<lceil>a\<rceil>)"
| "Math_ceil x = x"

section \<open>Pages, promises and the controller's state\<close>

text \<open>\<^verbatim>\<open>interface Page<T>\<close>\<close>

record 'a Page =
  startPosition :: number
  numTotalItems :: number
  items :: "'a list"

text \<open>
  What becomes of a \<^verbatim>\<open>Promise\<close> that is awaited: it is fulfilled with a value, it is
  rejected, or it never settles.
\<close>

datatype 'a promise = Fulfilled 'a | Rejected | Pending

text \<open>\<^verbatim>\<open>type RequestPage<T>\<close> and \<^verbatim>\<open>type InsertRow<T>\<close>\<close>

type_synonym 'a RequestPage = "number \<Rightarrow> number \<Rightarrow> 'a Page promise"

type_synonym ('a, 'e) InsertRow = "'a \<Rightarrow> 'e"

text \<open>
  The fields of \<^verbatim>\<open>class VerticalScrollController\<close>, together with the parts of the
  host page that its methods read and write:
  \<^item> \<open>this_startPosition\<close> and \<open>this_numTotalItems\<close> are the fields
    \<^verbatim>\<open>this.startPosition\<close> and \<^verbatim>\<open>this.numTotalItems\<close> (a page has fields of the same
    names);
  \<^item> \<open>content\<close> is the list of rows below \<^verbatim>\<open>this.content\<close>;
  \<^item> \<open>marginTop\<close> and \<open>height\<close> are \<^verbatim>\<open>this.tracker.style.marginTop\<close> and
    \<^verbatim>\<open>this.tracker.style.height\<close>: the code writes them as \<^verbatim>\<open>`${x}px`\<close> and reads
    \<open>marginTop\<close> back with \<^verbatim>\<open>parseFloat\<close>, which returns \<^verbatim>\<open>x\<close>; the model stores
    \<^verbatim>\<open>x\<close> (what a browser makes of a string that is no valid length is not modelled);
  \<^item> \<open>clientHeight\<close> is \<^verbatim>\<open>this.scrollable.clientHeight\<close>, and \<open>scrollTop\<close> is the
    \<^verbatim>\<open>top\<close> last handed to \<^verbatim>\<open>this.scrollable.scrollTo\<close>;
  \<^item> \<open>listening\<close> says whether the \<^verbatim>\<open>pointerup\<close> and \<^verbatim>\<open>pointermove\<close> listeners are
    registered on \<^verbatim>\<open>window\<close>;
  \<^item> \<open>requests\<close> lists the calls made to \<^verbatim>\<open>this.requestPage\<close>, oldest first, each
    with its start position and its number of items.
  \<^verbatim>\<open>this.requestPage\<close> and \<^verbatim>\<open>this.insertRow\<close> are set once, by \<^verbatim>\<open>initialize\<close>; the
  methods that call them take them as the parameters \<open>requestPage\<close> and \<open>insertRow\<close>.
\<close>

record ('a, 'e) VerticalScrollController =
  previousPage :: "'a Page option"
  currentPage :: "'a Page option"
  nextPage :: "'a Page option"
  numVisibleItems :: number
  trackerY :: number
  extrapolateFactor :: number
  trackableHeight :: number
  lastMargin :: number
  overlappingElements :: number
  rowHeight :: number
  this_startPosition :: number
  this_numTotalItems :: number
  content :: "'e list"
  marginTop :: number
  height :: number
  clientHeight :: number
  scrollTop :: number
  listening :: bool
  requests :: "(number \<times> number) list"

text \<open>\<^verbatim>\<open>let MIN_TRACKER_HEIGHT = 30\<close>\<close>

definition MIN_TRACKER_HEIGHT :: number where
  "MIN_TRACKER_HEIGHT = Num 30"

text \<open>
  The field initialisers and the constructor, on a viewport of the given
  \<^verbatim>\<open>clientHeight\<close> whose content element has no rows yet. The constructor sets the
  margin of the tracker to \<^verbatim>\<open>0px\<close>; the height of the tracker and the scroll position,
  which it does not set, start at zero.
\<close>

definition constructor :: "number \<Rightarrow> ('a, 'e) VerticalScrollController" where
  "constructor h =
     \<lparr> previousPage = None, currentPage = None, nextPage = None,
       numVisibleItems = Num 0, trackerY = Num 0, extrapolateFactor = Num 0,
       trackableHeight = Num 0, lastMargin = Num 0, overlappingElements = Num 10,
       rowHeight = Num 0, this_startPosition = Num 0, this_numTotalItems = Num 0,
       content = [], marginTop = Num 0, height = Num 0, clientHeight = h,
       scrollTop = Num 0, listening = False, requests = [] \<rparr>"

text \<open>
  How the run of an \<^verbatim>\<open>async\<close> method ends, and the state it leaves: it returns a value,
  it throws, or it stays suspended at an \<^verbatim>\<open>await\<close> whose promise never settles. A run
  is followed from its call to its end, with no other handler running in between.
\<close>

datatype error = TypeError | FetchRejected

datatype ('r, 's) outcome = Returned 'r 's | Threw error 's | Suspended 's

fun final_state :: "('r, 's) outcome \<Rightarrow> 's" where
  "final_state (Returned r s) = s"
| "final_state (Threw e s) = s"
| "final_state (Suspended s) = s"

text \<open>
  \<^verbatim>\<open>await\<close>: the rest of the method, \<open>k\<close>, runs on the value and in the state that the
  awaited run returns; an exception of the awaited run is thrown on, and a run that stays
  suspended keeps the awaiting method suspended.
\<close>

fun await ::
  "('r, 's) outcome \<Rightarrow> ('r \<Rightarrow> 's \<Rightarrow> ('q, 's) outcome) \<Rightarrow> ('q, 's) outcome" where
  "await (Returned r s) k = k r s"
| "await (Threw e s) k = Threw e s"
| "await (Suspended s) k = Suspended s"

section \<open>The paging engine\<close>

text \<open>
  The arguments with which \<^verbatim>\<open>requestPageIfExists(page)\<close> calls \<^verbatim>\<open>this.requestPage\<close>:
  the start position \<^verbatim>\<open>page * this.overlappingElements\<close> and the local \<^verbatim>\<open>num\<close>.
\<close>

definition pageRequest :: "('a, 'e) VerticalScrollController \<Rightarrow> number \<Rightarrow> number \<times> number" where
  "pageRequest s page =
     (let num = num_add (numVisibleItems s) (overlappingElements s);
          num = (if num_gt page (Num 0) then num_add num (overlappingElements s) else num)
      in (num_mul page (overlappingElements s), num))"

text \<open>\<^verbatim>\<open>requestPageIfExists(page)\<close>; a rejected fetch is thrown on by the \<^verbatim>\<open>await\<close>.\<close>

definition requestPageIfExists ::
  "'a RequestPage \<Rightarrow> ('a, 'e) VerticalScrollController \<Rightarrow> number \<Rightarrow>
     ('a Page option, ('a, 'e) VerticalScrollController) outcome" where
  "requestPageIfExists requestPage s page =
     (if num_ge page (Num 0) \<and> num_le (num_mul (overlappingElements s) page) (this_numTotalItems s)
      then
        let (start, num) = pageRequest s page;
            s1 = s\<lparr>requests := requests s @ [(start, num)]\<rparr>
        in (case requestPage start num of
              Fulfilled p \<Rightarrow> Returned (Some p) (s1\<lparr>this_numTotalItems := numTotalItems p\<rparr>)
            | Rejected \<Rightarrow> Threw FetchRejected s1
            | Pending \<Rightarrow> Suspended s1)
      else Returned None s)"

text \<open>
  \<^verbatim>\<open>calculateTrackerHeight()\<close>. Reading \<^verbatim>\<open>this.currentPage!.numTotalItems\<close> throws a
  \<^verbatim>\<open>TypeError\<close> when no current page is resident.
\<close>

definition calculateTrackerHeight :: "('a, 'e) VerticalScrollController \<Rightarrow> error + number" where
  "calculateTrackerHeight s =
     (case currentPage s of
        None \<Rightarrow> Inl TypeError
      | Some cp \<Rightarrow>
          let totalHeight = num_mul (rowHeight s) (numTotalItems cp);
              visibleHeight = clientHeight s;
              normalizeFactor = num_div visibleHeight totalHeight
          in if num_ge normalizeFactor (Num 1) then Inr (Num 0)
             else
               let trackerHeight = num_mul normalizeFactor visibleHeight;
                   trackerHeight = (if num_lt trackerHeight MIN_TRACKER_HEIGHT
                                    then MIN_TRACKER_HEIGHT else trackerHeight)
               in Inr trackerHeight)"

text \<open>\<^verbatim>\<open>fillContent()\<close>\<close>

definition fillContent ::
  "('a, 'e) InsertRow \<Rightarrow> ('a, 'e) VerticalScrollController \<Rightarrow> ('a, 'e) VerticalScrollController" where
  "fillContent insertRow s =
     (case currentPage s of
        None \<Rightarrow> s
      | Some cp \<Rightarrow> s\<lparr>content := map insertRow (items cp)\<rparr>)"

text \<open>\<^verbatim>\<open>updatePages(page, scrollY)\<close>\<close>

definition updatePages ::
  "'a RequestPage \<Rightarrow> ('a, 'e) InsertRow \<Rightarrow> ('a, 'e) VerticalScrollController \<Rightarrow> number \<Rightarrow> number \<Rightarrow>
     (unit, ('a, 'e) VerticalScrollController) outcome" where
  "updatePages requestPage insertRow s page scrollY =
     (let availableHeight = clientHeight s
      in await (requestPageIfExists requestPage s page) (\<lambda>r s1.
           let s2 = s1\<lparr>currentPage := r\<rparr>
           in (case currentPage s2 of
                 None \<Rightarrow> Threw TypeError s2
               | Some cp \<Rightarrow>
                   let s3 = fillContent insertRow (s2\<lparr>this_startPosition := startPosition cp\<rparr>)
                   in (case calculateTrackerHeight s3 of
                         Inl e \<Rightarrow> Threw e s3
                       | Inr trackerHeight \<Rightarrow>
                           let s4 = s3\<lparr>trackableHeight := num_sub availableHeight trackerHeight\<rparr>;
                               totalHeight = num_mul (rowHeight s4) (numTotalItems cp);
                               s5 = s4\<lparr>extrapolateFactor :=
                                         num_div (num_sub totalHeight availableHeight) (trackableHeight s4)\<rparr>;
                               s6 = s5\<lparr>height := trackerHeight\<rparr>;
                               top = num_rem scrollY (num_mul (overlappingElements s6) (rowHeight s6));
                               s7 = s6\<lparr>scrollTop := top\<rparr>
                           in await (requestPageIfExists requestPage s7 (num_add page (Num 1))) (\<lambda>r s8.
                                let s9 = s8\<lparr>nextPage := r\<rparr>
                                in await (requestPageIfExists requestPage s9 (num_sub page (Num 1))) (\<lambda>r s10.
                                     Returned () (s10\<lparr>previousPage := r\<rparr>)))))))"

text \<open>
  The two page numbers that \<^verbatim>\<open>scrollTo\<close> compares: the locals \<^verbatim>\<open>pageNumberByScroll\<close>
  and \<^verbatim>\<open>pageNumberByPage\<close>.
\<close>

definition pageNumberByScroll :: "('a, 'e) VerticalScrollController \<Rightarrow> number \<Rightarrow> number" where
  "pageNumberByScroll s scrollY =
     Math_floor (num_div scrollY (num_mul (overlappingElements s) (rowHeight s)))"

definition pageNumberByPage :: "('a, 'e) VerticalScrollController \<Rightarrow> number" where
  "pageNumberByPage s = num_div (this_startPosition s) (overlappingElements s)"

text \<open>
  \<^verbatim>\<open>scrollTo(scrollY)\<close>. The call of \<^verbatim>\<open>updatePages\<close> in the last branch is not awaited
  by the code; the model follows it to its end all the same.
\<close>

definition scrollTo ::
  "'a RequestPage \<Rightarrow> ('a, 'e) InsertRow \<Rightarrow> ('a, 'e) VerticalScrollController \<Rightarrow> number \<Rightarrow>
     (unit, ('a, 'e) VerticalScrollController) outcome" where
  "scrollTo requestPage insertRow s scrollY =
     (if num_eq (pageNumberByPage s) (pageNumberByScroll s scrollY) then
        Returned () (s\<lparr>scrollTop := num_rem scrollY (num_mul (overlappingElements s) (rowHeight s))\<rparr>)
      else if num_eq (num_add (pageNumberByPage s) (Num 1)) (pageNumberByScroll s scrollY)
              \<and> nextPage s \<noteq> None then
        (let s1 = s\<lparr>previousPage := currentPage s\<rparr>;
             s2 = s1\<lparr>currentPage := nextPage s1\<rparr>
         in (case currentPage s2 of
               None \<Rightarrow> Threw TypeError s2
             | Some cp \<Rightarrow>
                 let s3 = s2\<lparr>this_startPosition := startPosition cp\<rparr>
                 in await (requestPageIfExists requestPage s3
                             (num_add (pageNumberByScroll s scrollY) (Num 1))) (\<lambda>r s4.
                      let s5 = s4\<lparr>nextPage := r\<rparr>;
                          top = num_rem scrollY (num_mul (overlappingElements s5) (rowHeight s5));
                          s6 = s5\<lparr>scrollTop := top\<rparr>
                      in Returned () (fillContent insertRow s6))))
      else if num_eq (num_sub (pageNumberByPage s) (Num 1)) (pageNumberByScroll s scrollY)
              \<and> previousPage s \<noteq> None then
        (let s1 = s\<lparr>nextPage := currentPage s\<rparr>;
             s2 = s1\<lparr>currentPage := previousPage s1\<rparr>
         in (case currentPage s2 of
               None \<Rightarrow> Threw TypeError s2
             | Some cp \<Rightarrow>
                 let s3 = s2\<lparr>this_startPosition := startPosition cp\<rparr>
                 in await (requestPageIfExists requestPage s3 (pageNumberByScroll s scrollY)) (\<lambda>r s4.
                      let s5 = s4\<lparr>previousPage := r\<rparr>;
                          top = num_rem scrollY (num_mul (overlappingElements s5) (rowHeight s5));
                          s6 = s5\<lparr>scrollTop := top\<rparr>
                      in Returned () (fillContent insertRow s6))))
      else updatePages requestPage insertRow s (pageNumberByScroll s scrollY) scrollY)"

text \<open>
  Successive calls of \<^verbatim>\<open>scrollTo\<close>, one for each target offset of the list, each call
  run to its end before the next one starts; a call that throws or stays suspended ends
  the sequence.
\<close>

fun scrollTo_each ::
  "'a RequestPage \<Rightarrow> ('a, 'e) InsertRow \<Rightarrow> ('a, 'e) VerticalScrollController \<Rightarrow> number list \<Rightarrow>
     (unit, ('a, 'e) VerticalScrollController) outcome" where
  "scrollTo_each requestPage insertRow s [] = Returned () s"
| "scrollTo_each requestPage insertRow s (scrollY # rest) =
     await (scrollTo requestPage insertRow s scrollY)
       (\<lambda>r s1. scrollTo_each requestPage insertRow s1 rest)"

section \<open>The scroll synchronizer\<close>

text \<open>
  The two \<^verbatim>\<open>if\<close> statements that \<^verbatim>\<open>onTrackerMove\<close> and \<^verbatim>\<open>onScrollWheel\<close> both apply
  to the tracker's new margin: below zero it becomes zero, and then at or above
  \<^verbatim>\<open>this.trackableHeight\<close> it becomes \<^verbatim>\<open>this.trackableHeight\<close>.
\<close>

definition clampMargin :: "('a, 'e) VerticalScrollController \<Rightarrow> number \<Rightarrow> number" where
  "clampMargin s newMargin =
     (let newMargin = (if num_lt newMargin (Num 0) then Num 0 else newMargin)
      in if num_ge newMargin (trackableHeight s) then trackableHeight s else newMargin)"

text \<open>\<^verbatim>\<open>onTrackerDown(evt)\<close> and \<^verbatim>\<open>onTrackerUp(evt)\<close>; of the event only \<^verbatim>\<open>pageY\<close> is read.\<close>

definition onTrackerDown ::
  "('a, 'e) VerticalScrollController \<Rightarrow> number \<Rightarrow> ('a, 'e) VerticalScrollController" where
  "onTrackerDown s pageY = s\<lparr>trackerY := pageY, lastMargin := marginTop s, listening := True\<rparr>"

definition onTrackerUp ::
  "('a, 'e) VerticalScrollController \<Rightarrow> ('a, 'e) VerticalScrollController" where
  "onTrackerUp s = s\<lparr>listening := False, lastMargin := marginTop s\<rparr>"

text \<open>
  \<^verbatim>\<open>onTrackerMove(evt)\<close>. The handler does not await \<^verbatim>\<open>scrollTo\<close>; the model follows
  the call to its end, so that the outcome of the handler is the outcome of \<^verbatim>\<open>scrollTo\<close>.
\<close>

definition onTrackerMove ::
  "'a RequestPage \<Rightarrow> ('a, 'e) InsertRow \<Rightarrow> ('a, 'e) VerticalScrollController \<Rightarrow> number \<Rightarrow>
     (unit, ('a, 'e) VerticalScrollController) outcome" where
  "onTrackerMove requestPage insertRow s pageY =
     (let newMargin = clampMargin s (num_add (num_sub pageY (trackerY s)) (lastMargin s));
          s1 = s\<lparr>marginTop := newMargin\<rparr>;
          scrollY = num_mul (extrapolateFactor s1) newMargin
      in scrollTo requestPage insertRow s1 scrollY)"

text \<open>\<^verbatim>\<open>evt.deltaMode\<close> and the part of a \<^verbatim>\<open>WheelEvent\<close> that \<^verbatim>\<open>onScrollWheel\<close> reads.\<close>

datatype deltaMode = DOM_DELTA_PIXEL | DOM_DELTA_LINE | DOM_DELTA_PAGE

record WheelEvent =
  deltaMode :: deltaMode
  deltaY :: number

text \<open>\<^verbatim>\<open>onScrollWheel(evt)\<close>\<close>

definition onScrollWheel ::
  "'a RequestPage \<Rightarrow> ('a, 'e) InsertRow \<Rightarrow> ('a, 'e) VerticalScrollController \<Rightarrow> WheelEvent \<Rightarrow>
     (unit, ('a, 'e) VerticalScrollController) outcome" where
  "onScrollWheel requestPage insertRow s evt =
     (let scrollY = (case deltaMode evt of
                       DOM_DELTA_LINE \<Rightarrow> num_mul (deltaY evt) (rowHeight s)
                     | DOM_DELTA_PAGE \<Rightarrow> num_mul (deltaY evt) (clientHeight s)
                     | DOM_DELTA_PIXEL \<Rightarrow> deltaY evt);
          deltaMargin = num_div scrollY (extrapolateFactor s);
          s1 = s\<lparr>lastMargin := clampMargin s (num_add deltaMargin (lastMargin s))\<rparr>;
          s2 = s1\<lparr>marginTop := lastMargin s1\<rparr>;
          scrollY = num_mul (extrapolateFactor s2) (lastMargin s2)
      in scrollTo requestPage insertRow s2 scrollY)"

section \<open>Initialization\<close>

text \<open>
  \<^verbatim>\<open>calculateEntryHeight(item)\<close>: the row is appended to the content, measured at the
  next animation frame and removed. \<open>clientHeightOf\<close> is the height that the host's
  layout gives an element.
\<close>

definition calculateEntryHeight ::
  "('a, 'e) InsertRow \<Rightarrow> ('e \<Rightarrow> number) \<Rightarrow> ('a, 'e) VerticalScrollController \<Rightarrow> 'a \<Rightarrow>
     number \<times> ('a, 'e) VerticalScrollController" where
  "calculateEntryHeight insertRow clientHeightOf s item =
     (let elem = insertRow item;
          s1 = s\<lparr>content := content s @ [elem]\<rparr>
      in (clientHeightOf elem, s1\<lparr>content := butlast (content s1)\<rparr>))"

text \<open>
  \<^verbatim>\<open>initialize(getPage, insertRow, dummyEntry)\<close>. The call of \<^verbatim>\<open>updatePages\<close> is not
  awaited by the code; the model follows it to its end.
\<close>

definition initialize ::
  "'a RequestPage \<Rightarrow> ('a, 'e) InsertRow \<Rightarrow> ('e \<Rightarrow> number) \<Rightarrow> ('a, 'e) VerticalScrollController \<Rightarrow> 'a \<Rightarrow>
     (unit, ('a, 'e) VerticalScrollController) outcome" where
  "initialize getPage insertRow clientHeightOf s dummyEntry =
     (let availableHeight = clientHeight s;
          (h, s1) = calculateEntryHeight insertRow clientHeightOf s dummyEntry;
          s2 = s1\<lparr>rowHeight := h\<rparr>;
          s3 = s2\<lparr>numVisibleItems := Math_ceil (num_div availableHeight (rowHeight s2))\<rparr>
      in updatePages getPage insertRow s3 (Num 0) (Num 0))"

section \<open>The sample data source and row builder\<close>

text \<open>\<^verbatim>\<open>class ListItemImpl\<close>, with its field \<^verbatim>\<open>num\<close>\<close>

datatype ListItemImpl = ListItemImpl number

text \<open>\<^verbatim>\<open>let totalNumberItems = 500\<close>; nothing assigns it again.\<close>

definition totalNumberItems :: number where
  "totalNumberItems = Num 500"

text \<open>
  The \<^verbatim>\<open>for\<close> loop of \<^verbatim>\<open>getPage\<close>, from the index \<open>idx\<close> on. It does not end when
  \<open>numberItems\<close> is \<open>PosInfinity\<close>; the result is then \<open>None\<close>.
\<close>

partial_function (option) getPage_loop ::
  "number \<Rightarrow> number \<Rightarrow> number \<Rightarrow> ListItemImpl list \<Rightarrow> ListItemImpl list option" where
  "getPage_loop startPos numberItems idx its =
     (if num_lt idx numberItems then
        getPage_loop startPos numberItems (num_add idx (Num 1))
          (if num_ge (num_add idx startPos) totalNumberItems then its
           else its @ [ListItemImpl (num_add idx startPos)])
      else Some its)"

declare getPage_loop.simps [code]

text \<open>
  \<^verbatim>\<open>getPage(startPosition, numberItems)\<close>: \<open>None\<close> when the call does not return, and
  otherwise the promise it returns. The promise is left unsettled when
  \<^verbatim>\<open>startPosition >= totalNumberItems\<close>, and fulfilled by the timer otherwise.
\<close>

definition getPage :: "number \<Rightarrow> number \<Rightarrow> ListItemImpl Page promise option" where
  "getPage startPos numberItems =
     (if num_ge startPos totalNumberItems then Some Pending
      else case getPage_loop startPos numberItems (Num 0) [] of
             None \<Rightarrow> None
           | Some its \<Rightarrow>
               Some (Fulfilled \<lparr>startPosition = startPos, numTotalItems = totalNumberItems,
                                items = its\<rparr>))"

text \<open>
  \<^verbatim>\<open>getPage\<close> as the controller sees it: while a call does not return, the caller that
  awaits its result waits, as for a promise that never settles.
\<close>

definition getPage_awaited :: "ListItemImpl RequestPage" where
  "getPage_awaited startPos numberItems =
     (case getPage startPos numberItems of None \<Rightarrow> Pending | Some p \<Rightarrow> p)"

text \<open>
  \<^verbatim>\<open>insertRow(item)\<close> builds a \<^verbatim>\<open>div\<close> of class \<^verbatim>\<open>row\<close> that shows \<^verbatim>\<open>Element\<close> and
  \<^verbatim>\<open>item.num\<close>; of the element the model keeps that number.
\<close>

datatype HTMLElement = Div_row number

definition insertRow :: "(ListItemImpl, HTMLElement) InsertRow" where
  "insertRow item = (case item of ListItemImpl n \<Rightarrow> Div_row n)"

section \<open>The sample page\<close>

text \<open>
  The host of the sample: a viewport 480 pixels high whose layout gives every row 24
  pixels, and the controller as \<^verbatim>\<open>model.initialize(getPage, insertRow, new
  ListItemImpl(92345))\<close> leaves it.
\<close>

definition rows_of_24 :: "HTMLElement \<Rightarrow> number" where
  "rows_of_24 elem = Num 24"

definition sample_state :: "(ListItemImpl, HTMLElement) VerticalScrollController" where
  "sample_state =
     final_state (initialize getPage_awaited insertRow rows_of_24 (constructor (Num 480))
                    (ListItemImpl (Num 92345)))"

text \<open>
  The controller of the sample page inside \<^verbatim>\<open>initialize\<close>, when the row has been
  measured and the number of visible items computed, before the first fetch.
\<close>

definition measured_state :: "(ListItemImpl, HTMLElement) VerticalScrollController" where
  "measured_state = (constructor (Num 480))\<lparr>rowHeight := Num 24, numVisibleItems := Num 20\<rparr>"

text \<open>
  The same page in a viewport 240 pixels high, which shows ten rows, after
  initialization; and that page after \<^verbatim>\<open>scrollTo(11536)\<close>, a jump to page 48.
\<close>

definition compact_state :: "(ListItemImpl, HTMLElement) VerticalScrollController" where
  "compact_state =
     final_state (initialize getPage_awaited insertRow rows_of_24 (constructor (Num 240))
                    (ListItemImpl (Num 92345)))"

definition compact_state_48 :: "(ListItemImpl, HTMLElement) VerticalScrollController" where
  "compact_state_48 = final_state (scrollTo getPage_awaited insertRow compact_state (Num 11536))"


text \<open>
  The sample page while its list is not displayed: the layout gives the viewport and
  every row the height zero. \<open>hidden_state\<close> is the controller after initialization
  there.
\<close>

definition rows_of_0 :: "HTMLElement \<Rightarrow> number" where
  "rows_of_0 elem = Num 0"

definition hidden_state :: "(ListItemImpl, HTMLElement) VerticalScrollController" where
  "hidden_state =
     final_state (initialize getPage_awaited insertRow rows_of_0 (constructor (Num 0))
                    (ListItemImpl (Num 92345)))"

text \<open>
  A drag on the sample page that is interrupted by a wheel event: the pointer goes down
  on the tracker at \<^verbatim>\<open>pageY\<close> 100 and moves to 105 (\<open>dragged_state\<close>); then, the pointer
  still down, a wheel event arrives whose delta is zero pixels (\<open>wheeled_state\<close>).
\<close>

definition dragged_state :: "(ListItemImpl, HTMLElement) VerticalScrollController" where
  "dragged_state =
     final_state (onTrackerMove getPage_awaited insertRow (onTrackerDown sample_state (Num 100))
                    (Num 105))"

definition wheeled_state :: "(ListItemImpl, HTMLElement) VerticalScrollController" where
  "wheeled_state =
     final_state (onScrollWheel getPage_awaited insertRow dragged_state
                    \<lparr>deltaMode = DOM_DELTA_PIXEL, deltaY = Num 0\<rparr>)"

section \<open>Facts about numbers\<close>

lemmas num_defs = num_ge_def num_le_def num_gt_def num_eq_def num_sub_def signed_infinity_def

lemma num_le_Num: "num_le (Num a) (Num b) = (a \<le> b)"
  by (auto simp: num_defs)

lemma num_ge_Num: "num_ge (Num a) (Num b) = (b \<le> a)"
  by (auto simp: num_defs)

lemma num_mul_commute: "num_mul a b = num_mul b a"
  by (cases a; cases b) (simp_all add: num_defs mult.commute)

lemma num_ge_zero_cases: "num_ge page (Num 0) \<Longrightarrow> page = Num 0 \<or> num_gt page (Num 0)"
  by (cases page) (auto simp: num_defs)

lemma num_gt_not_eq: "num_gt page (Num 0) \<Longrightarrow> page \<noteq> Num 0"
  by (cases page) (auto simp: num_defs)

lemma num_add_twice: "num_add (num_add a b) b = num_add a (num_mul (Num 2) b)"
  by (cases a; cases b) (simp_all add: num_defs)

lemma floor_rat_numeral [simp]:
  "\<lfloor>numeral a / numeral b :: rat\<rfloor> = numeral a div numeral b"
  by (metis floor_divide_of_int_eq of_int_numeral)

lemma floor_rat_neg_numeral [simp]:
  "\<lfloor>- (numeral a / numeral b) :: rat\<rfloor> = - numeral a div numeral b"
  by (metis floor_divide_of_int_eq of_int_numeral of_int_minus minus_divide_left)

lemma ceiling_rat_numeral [simp]:
  "\<lceil>numeral a / numeral b :: rat\<rceil> = - (- numeral a div numeral b)"
  unfolding ceiling_def by simp

lemma ceiling_rat_neg_numeral [simp]:
  "\<lceil>- (numeral a / numeral b) :: rat\<rceil> = - (numeral a div numeral b)"
  unfolding ceiling_def by simp

lemma num_rem_nonneg:
  "0 \<le> a \<Longrightarrow> 0 < b \<Longrightarrow> num_rem (Num a) (Num b) = Num (a - b * of_int \<lfloor>a / b\<rfloor>)"
  by (simp add: rat_trunc_def)

section \<open>Facts about the sample page\<close>

lemmas eval_defs =
  initialize_def calculateEntryHeight_def constructor_def updatePages_def requestPageIfExists_def
  pageRequest_def getPage_awaited_def getPage_def getPage_loop.simps totalNumberItems_def num_defs
  fillContent_def calculateTrackerHeight_def MIN_TRACKER_HEIGHT_def Let_def rows_of_24_def
  insertRow_def

lemma sample_state_fields:
  "previousPage sample_state = None"
  "this_numTotalItems sample_state = Num 500"
  "numVisibleItems sample_state = Num 20"
  "overlappingElements sample_state = Num 10"
  "rowHeight sample_state = Num 24"
  "requests sample_state = [(Num 0, Num 30), (Num 10, Num 40)]"
  "extrapolateFactor sample_state = Num (128 / 5)"
  "trackableHeight sample_state = Num 450"
  "this_startPosition sample_state = Num 0"
  "lastMargin sample_state = Num 0"
  "marginTop sample_state = Num 0"
  "clientHeight sample_state = Num 480"
  "map_option startPosition (currentPage sample_state) = Some (Num 0)"
  "map_option startPosition (nextPage sample_state) = Some (Num 10)"
  "map_option (\<lambda>p. length (items p)) (currentPage sample_state) = Some 30"
  "map_option (\<lambda>p. length (items p)) (nextPage sample_state) = Some 40"
  by (simp_all add: sample_state_def eval_defs)

lemmas scroll_defs = scrollTo_def pageNumberByPage_def pageNumberByScroll_def rat_trunc_def

lemma compact_state_fields:
  "this_numTotalItems compact_state = Num 500"
  "numVisibleItems compact_state = Num 10"
  "overlappingElements compact_state = Num 10"
  "rowHeight compact_state = Num 24"
  "requests compact_state = [(Num 0, Num 20), (Num 10, Num 30)]"
  "extrapolateFactor compact_state = Num 56"
  "trackableHeight compact_state = Num 210"
  "this_startPosition compact_state = Num 0"
  "clientHeight compact_state = Num 240"
  "nextPage compact_state \<noteq> None"
  by (simp_all add: compact_state_def eval_defs)

lemma compact_state_48_fields:
  "this_numTotalItems compact_state_48 = Num 500"
  "numVisibleItems compact_state_48 = Num 10"
  "overlappingElements compact_state_48 = Num 10"
  "rowHeight compact_state_48 = Num 24"
  "requests compact_state_48 =
     [(Num 0, Num 20), (Num 10, Num 30), (Num 480, Num 30), (Num 490, Num 30), (Num 470, Num 30)]"
  "this_startPosition compact_state_48 = Num 480"
  "map_option startPosition (currentPage compact_state_48) = Some (Num 480)"
  "map_option startPosition (nextPage compact_state_48) = Some (Num 490)"
  unfolding compact_state_48_def
  by (simp_all add: compact_state_fields eval_defs scroll_defs)

lemma sample_state_geometry:
  "map_option numTotalItems (currentPage sample_state) = Some (Num 500)"
  "calculateTrackerHeight sample_state = Inr (Num 30)"
  "height sample_state = Num 30"
  "trackerY sample_state = Num 0"
  by (simp_all add: sample_state_def eval_defs)


lemma hidden_state_fields:
  "rowHeight hidden_state = Num 0"
  "clientHeight hidden_state = Num 0"
  "numVisibleItems hidden_state = NaN"
  "extrapolateFactor hidden_state = NaN"
  "map_option numTotalItems (currentPage hidden_state) = Some (Num 500)"
  "calculateTrackerHeight hidden_state = Inr NaN"
  "requests hidden_state = [(Num 0, NaN), (Num 10, NaN)]"
  "initialize getPage_awaited insertRow rows_of_0 (constructor (Num 0)) (ListItemImpl (Num 92345)) =
     Returned () hidden_state"
  by (simp_all add: hidden_state_def eval_defs rows_of_0_def)

lemma measured_state_fields:
  "overlappingElements measured_state = Num 10"
  "this_numTotalItems measured_state = Num 0"
  "numVisibleItems measured_state = Num 20"
  "requests measured_state = []"
  by (simp_all add: measured_state_def constructor_def)

lemma initialize_measured:
  "initialize getPage_awaited insertRow rows_of_24 (constructor (Num 480)) (ListItemImpl (Num 92345)) =
     updatePages getPage_awaited insertRow measured_state (Num 0) (Num 0)"
  by (simp add: initialize_def calculateEntryHeight_def rows_of_24_def measured_state_def constructor_def
      Let_def)

section \<open>Requesting a page\<close>

lemma requestPageIfExists_absent:
  "\<not> (num_ge page (Num 0) \<and> num_le (num_mul (overlappingElements s) page) (this_numTotalItems s))
   \<Longrightarrow> requestPageIfExists rp s page = Returned None s"
  by (auto simp: requestPageIfExists_def)

lemma requestPageIfExists_fetch:
  "num_ge page (Num 0) \<Longrightarrow> num_le (num_mul (overlappingElements s) page) (this_numTotalItems s)
   \<Longrightarrow> requestPageIfExists rp s page =
       (case rp (fst (pageRequest s page)) (snd (pageRequest s page)) of
          Fulfilled p \<Rightarrow> Returned (Some p) (s\<lparr>requests := requests s @ [pageRequest s page],
                                               this_numTotalItems := numTotalItems p\<rparr>)
        | Rejected \<Rightarrow> Threw FetchRejected (s\<lparr>requests := requests s @ [pageRequest s page]\<rparr>)
        | Pending \<Rightarrow> Suspended (s\<lparr>requests := requests s @ [pageRequest s page]\<rparr>))"
  by (simp add: requestPageIfExists_def Let_def split: prod.splits promise.splits)

lemma fst_pageRequest: "fst (pageRequest s page) = num_mul page (overlappingElements s)"
  by (simp add: pageRequest_def Let_def)

text \<open>
  The loop of the sample \<^verbatim>\<open>getPage\<close> ends for every number of items but
  \<^verbatim>\<open>Infinity\<close>, for which it never ends. So the promise that the controller awaits is
  fulfilled, with a page that starts at the requested position, when that position is
  below \<^verbatim>\<open>totalNumberItems\<close> and the number of items is not \<^verbatim>\<open>Infinity\<close>; otherwise
  the controller waits for ever.
\<close>

lemma getPage_loop_returns:
  "\<exists>res. getPage_loop startPos (Num n) (Num i) acc = Some res"
proof (induction "nat \<lceil>n - i\<rceil>" arbitrary: i acc)
  case 0
  then have "\<not> i < n"
    by simp
  then show ?case
    by (subst getPage_loop.simps) simp
next
  case (Suc k)
  show ?case
  proof (cases "i < n")
    case True
    have "k = nat \<lceil>n - (i + 1)\<rceil>"
      using Suc.hyps(2) by linarith
    from Suc.hyps(1) [OF this] show ?thesis
      using True by (subst getPage_loop.simps) simp
  next
    case False
    then show ?thesis
      by (subst getPage_loop.simps) simp
  qed
qed

lemma getPage_loop_endless_aux:
  assumes "getPage_loop startPos numberItems idx its = Some y"
  shows "\<not> (numberItems = PosInfinity \<and> (\<exists>i. idx = Num i))"
proof (rule getPage_loop.raw_induct
    [where P = "\<lambda>sp n k acc res. \<not> (n = PosInfinity \<and> (\<exists>i. k = Num i))", OF _ assms])
  fix loop :: "number \<Rightarrow> number \<Rightarrow> number \<Rightarrow> ListItemImpl list \<Rightarrow> ListItemImpl list option"
    and sp n k acc res
  assume IH: "\<And>sp n k acc res. loop sp n k acc = Some res \<Longrightarrow> \<not> (n = PosInfinity \<and> (\<exists>i. k = Num i))"
  assume step: "(if num_lt k n
      then loop sp n (num_add k (Num 1))
             (if num_ge (num_add k sp) totalNumberItems then acc
              else acc @ [ListItemImpl (num_add k sp)])
      else Some acc) = Some res"
  show "\<not> (n = PosInfinity \<and> (\<exists>i. k = Num i))"
  proof
    assume "n = PosInfinity \<and> (\<exists>i. k = Num i)"
    then obtain i where inf: "n = PosInfinity" and k: "k = Num i"
      by blast
    from step inf k obtain acc' where "loop sp PosInfinity (Num (i + 1)) acc' = Some res"
      by (simp split: if_splits)
    from IH [OF this] show False
      by simp
  qed
qed

lemma getPage_loop_endless: "getPage_loop startPos PosInfinity (Num i) its = None"
  using getPage_loop_endless_aux [of startPos PosInfinity "Num i" its]
  by (cases "getPage_loop startPos PosInfinity (Num i) its") auto

lemma getPage_endless:
  "\<not> num_ge startPos totalNumberItems \<Longrightarrow> getPage startPos PosInfinity = None"
  by (simp add: getPage_def getPage_loop_endless)

lemma getPage_loop_returns_unless_infinite:
  assumes "numberItems \<noteq> PosInfinity"
  shows "\<exists>res. getPage_loop startPos numberItems (Num i) acc = Some res"
proof (cases numberItems)
  case (Num n)
  then show ?thesis
    using getPage_loop_returns by simp
next
  case PosInfinity
  with assms show ?thesis
    by simp
next
  case NegInfinity
  then show ?thesis
    by (subst getPage_loop.simps) simp
next
  case NaN
  then show ?thesis
    by (subst getPage_loop.simps) simp
qed

lemma num_lt_not_ge: "num_lt a b \<Longrightarrow> \<not> num_ge a b"
  by (cases a; cases b) (auto simp: num_defs)

lemma getPage_awaited_pending:
  "num_ge startPos totalNumberItems \<or> numberItems = PosInfinity \<Longrightarrow>
   getPage_awaited startPos numberItems = Pending"
  by (auto simp: getPage_awaited_def getPage_def getPage_loop_endless)

lemma getPage_awaited_fulfilled:
  assumes "num_lt startPos totalNumberItems" "numberItems \<noteq> PosInfinity"
  shows "\<exists>q. getPage_awaited startPos numberItems = Fulfilled q \<and> startPosition q = startPos
           \<and> numTotalItems q = totalNumberItems"
  using num_lt_not_ge [OF assms(1)] getPage_loop_returns_unless_infinite [OF assms(2), of startPos 0 "[]"]
  by (auto simp: getPage_awaited_def getPage_def)

text \<open>
  Claim C1, as the specification states it: for every page index that is at least zero
  and whose product with the overlap stride is at most the cached total,
  \<^verbatim>\<open>requestPageIfExists\<close> returns a page whose start position is that product. On the
  sample page this fails at page index 50: the index passes the test (500 is at most the
  cached total 500), the fetch at position 500 is issued, and since the sample
  \<^verbatim>\<open>getPage\<close> leaves that promise unsettled the call stays suspended and returns no page.
\<close>

theorem requestPageIfExists_boundary_returns_no_page:
  "num_ge (Num 50) (Num 0)
   \<and> num_le (num_mul (Num 50) (overlappingElements sample_state)) (this_numTotalItems sample_state)
   \<and> requestPageIfExists getPage_awaited sample_state (Num 50) =
       Suspended (sample_state\<lparr>requests := [(Num 0, Num 30), (Num 10, Num 40), (Num 500, Num 40)]\<rparr>)"
  by (simp add: sample_state_fields requestPageIfExists_def pageRequest_def getPage_awaited_def
      getPage_def totalNumberItems_def num_defs)

text \<open>
  Claim C1, amended: for every page index that is at least zero and whose product with
  the overlap stride is at most the cached total, \<^verbatim>\<open>requestPageIfExists\<close> issues one
  fetch at that product and, when the data source fulfils the fetch with a page that
  starts at the requested position, returns that page, whose start position is the page
  index times the overlap stride, and caches its total. The sample data source does so
  when that product is below its total of 500 and the number of items requested is not
  \<^verbatim>\<open>Infinity\<close>; when the product is at or above 500, or the number of items requested
  is \<^verbatim>\<open>Infinity\<close>, the call never returns. For every other page index
  \<^verbatim>\<open>requestPageIfExists\<close> returns absent, without a fetch and without an error.
\<close>

theorem requestPageIfExists_page_or_absent:
  "(num_ge page (Num 0) \<and> num_le (num_mul page (overlappingElements s)) (this_numTotalItems s)
     \<and> rp (fst (pageRequest s page)) (snd (pageRequest s page)) = Fulfilled p
     \<and> startPosition p = fst (pageRequest s page)
     \<longrightarrow> requestPageIfExists rp s page =
           Returned (Some p) (s\<lparr>requests := requests s @ [pageRequest s page],
                                 this_numTotalItems := numTotalItems p\<rparr>)
         \<and> startPosition p = num_mul page (overlappingElements s))
   \<and> (num_ge page (Num 0) \<and> num_le (num_mul page (overlappingElements s)) (this_numTotalItems s)
     \<and> num_lt (num_mul page (overlappingElements s)) totalNumberItems
     \<and> snd (pageRequest s page) \<noteq> PosInfinity
     \<longrightarrow> (\<exists>q. requestPageIfExists getPage_awaited s page =
                 Returned (Some q) (s\<lparr>requests := requests s @ [pageRequest s page],
                                       this_numTotalItems := totalNumberItems\<rparr>)
              \<and> startPosition q = num_mul page (overlappingElements s)))
   \<and> (num_ge page (Num 0) \<and> num_le (num_mul page (overlappingElements s)) (this_numTotalItems s)
     \<and> (num_ge (num_mul page (overlappingElements s)) totalNumberItems
        \<or> snd (pageRequest s page) = PosInfinity)
     \<longrightarrow> requestPageIfExists getPage_awaited s page =
           Suspended (s\<lparr>requests := requests s @ [pageRequest s page]\<rparr>))
   \<and> (\<not> (num_ge page (Num 0) \<and> num_le (num_mul page (overlappingElements s)) (this_numTotalItems s))
     \<longrightarrow> requestPageIfExists rp s page = Returned None s)"
proof (intro conjI impI)
  assume a: "num_ge page (Num 0) \<and> num_le (num_mul page (overlappingElements s)) (this_numTotalItems s)
     \<and> rp (fst (pageRequest s page)) (snd (pageRequest s page)) = Fulfilled p
     \<and> startPosition p = fst (pageRequest s page)"
  then have v: "num_ge page (Num 0)" "num_le (num_mul (overlappingElements s) page) (this_numTotalItems s)"
    by (simp_all add: num_mul_commute [of page])
  from a requestPageIfExists_fetch [OF v, of rp]
  show "requestPageIfExists rp s page =
           Returned (Some p) (s\<lparr>requests := requests s @ [pageRequest s page],
                                 this_numTotalItems := numTotalItems p\<rparr>)"
    by simp
  from a show "startPosition p = num_mul page (overlappingElements s)"
    by (simp add: fst_pageRequest)
next
  assume a: "num_ge page (Num 0) \<and> num_le (num_mul page (overlappingElements s)) (this_numTotalItems s)
     \<and> num_lt (num_mul page (overlappingElements s)) totalNumberItems
     \<and> snd (pageRequest s page) \<noteq> PosInfinity"
  then have v: "num_ge page (Num 0)" "num_le (num_mul (overlappingElements s) page) (this_numTotalItems s)"
    by (simp_all add: num_mul_commute [of page])
  from a obtain q where q: "getPage_awaited (fst (pageRequest s page)) (snd (pageRequest s page)) = Fulfilled q"
    "startPosition q = fst (pageRequest s page)" "numTotalItems q = totalNumberItems"
    using getPage_awaited_fulfilled [of "fst (pageRequest s page)" "snd (pageRequest s page)"]
    by (auto simp: fst_pageRequest)
  from requestPageIfExists_fetch [OF v, of getPage_awaited] q
  have "requestPageIfExists getPage_awaited s page =
          Returned (Some q) (s\<lparr>requests := requests s @ [pageRequest s page],
                                this_numTotalItems := totalNumberItems\<rparr>)"
    by simp
  with q(2) show "\<exists>q. requestPageIfExists getPage_awaited s page =
                 Returned (Some q) (s\<lparr>requests := requests s @ [pageRequest s page],
                                       this_numTotalItems := totalNumberItems\<rparr>)
              \<and> startPosition q = num_mul page (overlappingElements s)"
    by (auto simp: fst_pageRequest)
next
  assume a: "num_ge page (Num 0) \<and> num_le (num_mul page (overlappingElements s)) (this_numTotalItems s)
     \<and> (num_ge (num_mul page (overlappingElements s)) totalNumberItems
        \<or> snd (pageRequest s page) = PosInfinity)"
  then have v: "num_ge page (Num 0)" "num_le (num_mul (overlappingElements s) page) (this_numTotalItems s)"
    by (simp_all add: num_mul_commute [of page])
  from a have "getPage_awaited (fst (pageRequest s page)) (snd (pageRequest s page)) = Pending"
    by (intro getPage_awaited_pending) (simp add: fst_pageRequest)
  with requestPageIfExists_fetch [OF v, of getPage_awaited]
  show "requestPageIfExists getPage_awaited s page =
           Suspended (s\<lparr>requests := requests s @ [pageRequest s page]\<rparr>)"
    by simp
next
  assume "\<not> (num_ge page (Num 0) \<and> num_le (num_mul page (overlappingElements s)) (this_numTotalItems s))"
  then show "requestPageIfExists rp s page = Returned None s"
    by (intro requestPageIfExists_absent) (simp add: num_mul_commute [of page])
qed

theorem requestPageIfExists_page_or_absent_witness:
  "(\<exists>p. requestPageIfExists getPage_awaited sample_state (Num 3) =
          Returned (Some p) (sample_state\<lparr>requests := [(Num 0, Num 30), (Num 10, Num 40), (Num 30, Num 40)],
                                           this_numTotalItems := Num 500\<rparr>)
        \<and> startPosition p = Num 30 \<and> length (items p) = 40)
   \<and> (\<exists>q. requestPageIfExists getPage_awaited sample_state (Num 4) =
          Returned (Some q) (sample_state\<lparr>requests := [(Num 0, Num 30), (Num 10, Num 40), (Num 40, Num 40)],
                                           this_numTotalItems := Num 500\<rparr>)
        \<and> startPosition q = Num 40)
   \<and> requestPageIfExists getPage_awaited (measured_state\<lparr>numVisibleItems := PosInfinity\<rparr>) (Num 0) =
       Suspended (measured_state\<lparr>numVisibleItems := PosInfinity, requests := [(Num 0, PosInfinity)]\<rparr>)
   \<and> requestPageIfExists getPage_awaited sample_state (Num (- 1)) = Returned None sample_state"
proof -
  have pr: "pageRequest sample_state (Num 3) = (Num 30, Num 40)"
    "pageRequest sample_state (Num 4) = (Num 40, Num 40)"
    "pageRequest (measured_state\<lparr>numVisibleItems := PosInfinity\<rparr>) (Num 0) = (Num 0, PosInfinity)"
    by (simp_all add: pageRequest_def sample_state_fields measured_state_fields num_defs)
  have "\<exists>p. getPage_awaited (Num 30) (Num 40) = Fulfilled p \<and> startPosition p = Num 30
           \<and> numTotalItems p = Num 500 \<and> length (items p) = 40"
    by (simp add: getPage_awaited_def getPage_def getPage_loop.simps totalNumberItems_def num_defs)
  then obtain p where p: "getPage_awaited (Num 30) (Num 40) = Fulfilled p"
    "startPosition p = Num 30" "numTotalItems p = Num 500" "length (items p) = 40"
    by blast
  have valid: "num_ge (Num 3) (Num 0)"
    "num_le (num_mul (Num 3) (overlappingElements sample_state)) (this_numTotalItems sample_state)"
    "num_ge (Num 4) (Num 0)"
    "num_le (num_mul (Num 4) (overlappingElements sample_state)) (this_numTotalItems sample_state)"
    "num_lt (num_mul (Num 4) (overlappingElements sample_state)) totalNumberItems"
    "num_ge (Num 0) (Num 0)"
    "num_le (num_mul (Num 0) (overlappingElements (measured_state\<lparr>numVisibleItems := PosInfinity\<rparr>)))
       (this_numTotalItems (measured_state\<lparr>numVisibleItems := PosInfinity\<rparr>))"
    by (simp_all add: sample_state_fields measured_state_fields totalNumberItems_def num_defs)
  have invalid: "\<not> num_ge (Num (- 1)) (Num 0)"
    by (simp add: num_defs)
  from requestPageIfExists_page_or_absent [where page = "Num 3" and s = sample_state
      and rp = getPage_awaited and p = p] pr p valid
  have "requestPageIfExists getPage_awaited sample_state (Num 3) =
          Returned (Some p) (sample_state\<lparr>requests := [(Num 0, Num 30), (Num 10, Num 40), (Num 30, Num 40)],
                                           this_numTotalItems := Num 500\<rparr>)"
    by (simp add: sample_state_fields)
  moreover from requestPageIfExists_page_or_absent [where page = "Num 4" and s = sample_state] pr valid
  have "\<exists>q. requestPageIfExists getPage_awaited sample_state (Num 4) =
          Returned (Some q) (sample_state\<lparr>requests := [(Num 0, Num 30), (Num 10, Num 40), (Num 40, Num 40)],
                                           this_numTotalItems := Num 500\<rparr>)
        \<and> startPosition q = Num 40"
    by (simp add: sample_state_fields totalNumberItems_def)
  moreover from requestPageIfExists_page_or_absent
      [where page = "Num 0" and s = "measured_state\<lparr>numVisibleItems := PosInfinity\<rparr>"] pr valid
  have "requestPageIfExists getPage_awaited (measured_state\<lparr>numVisibleItems := PosInfinity\<rparr>) (Num 0) =
       Suspended (measured_state\<lparr>numVisibleItems := PosInfinity, requests := [(Num 0, PosInfinity)]\<rparr>)"
    by (simp add: measured_state_fields)
  moreover from requestPageIfExists_page_or_absent [where page = "Num (- 1)" and s = sample_state
      and rp = getPage_awaited] invalid
  have "requestPageIfExists getPage_awaited sample_state (Num (- 1)) = Returned None sample_state"
    by simp
  ultimately show ?thesis
    using p by blast
qed

text \<open>
  Claim C2: for every valid page index, \<^verbatim>\<open>requestPageIfExists\<close> issues exactly one
  request, at the page index times the overlap stride, for \<^verbatim>\<open>numVisibleItems +
  overlapStride\<close> items when the page index is zero and for \<^verbatim>\<open>numVisibleItems + 2 *
  overlapStride\<close> items when it is greater than zero. On the sample page (overlap stride
  10, 20 visible items) initialization requests 30 items at position 0 for the current
  page, then 40 items at position 10 for the next page, and nothing else: the previous
  page is absent.
\<close>

theorem requestPageIfExists_count:
  assumes "num_ge page (Num 0)"
    and "num_le (num_mul page (overlappingElements s)) (this_numTotalItems s)"
  shows "requests (final_state (requestPageIfExists rp s page)) =
           requests s @ [(num_mul page (overlappingElements s),
                          if page = Num 0 then num_add (numVisibleItems s) (overlappingElements s)
                          else num_add (numVisibleItems s) (num_mul (Num 2) (overlappingElements s)))]
         \<and> overlappingElements sample_state = Num 10
         \<and> numVisibleItems sample_state = Num 20
         \<and> requests sample_state = [(Num 0, Num 30), (Num 10, Num 40)]
         \<and> map_option startPosition (currentPage sample_state) = Some (Num 0)
         \<and> map_option startPosition (nextPage sample_state) = Some (Num 10)
         \<and> previousPage sample_state = None"
  using assms num_ge_zero_cases [OF assms(1)]
  by (auto simp: requestPageIfExists_def pageRequest_def Let_def num_gt_def num_add_twice
      sample_state_fields num_mul_commute [of page] split: promise.splits dest: num_gt_not_eq)

theorem requestPageIfExists_count_witness:
  "num_ge (Num 1) (Num 0)
   \<and> num_le (num_mul (Num 1) (overlappingElements sample_state)) (this_numTotalItems sample_state)
   \<and> requests (final_state (requestPageIfExists getPage_awaited sample_state (Num 1))) =
       [(Num 0, Num 30), (Num 10, Num 40), (Num 10, Num 40)]"
proof -
  have a: "num_ge (Num 1) (Num 0)"
    by (simp add: num_defs)
  have b: "num_le (num_mul (Num 1) (overlappingElements sample_state)) (this_numTotalItems sample_state)"
    by (simp add: sample_state_fields num_defs)
  from requestPageIfExists_count [OF a b, of getPage_awaited]
  have "requests (final_state (requestPageIfExists getPage_awaited sample_state (Num 1))) =
          [(Num 0, Num 30), (Num 10, Num 40), (Num 10, Num 40)]"
    by (simp add: sample_state_fields)
  with a b show ?thesis by simp
qed

text \<open>
  Claim C10, as the specification states it: at the boundary, where the page index
  times the overlap stride equals the cached total, \<^verbatim>\<open>requestPageIfExists\<close> takes the
  index as valid and issues a fetch whose start position is that total, and with the
  sample \<^verbatim>\<open>getPage\<close> that awaited fetch never completes. The first fetch of
  \<^verbatim>\<open>initialize\<close> is at the boundary: the page index is 0 and the cached total is still
  0. The fetch is issued at position 0, below the 500 items of the sample source, and it
  is fulfilled with the items 0 to 29.
\<close>

theorem boundary_fetch_resolves_at_first_fetch:
  "num_ge (Num 0) (Num 0)
   \<and> num_eq (num_mul (Num 0) (overlappingElements measured_state)) (this_numTotalItems measured_state)
   \<and> initialize getPage_awaited insertRow rows_of_24 (constructor (Num 480)) (ListItemImpl (Num 92345)) =
       updatePages getPage_awaited insertRow measured_state (Num 0) (Num 0)
   \<and> requestPageIfExists getPage_awaited measured_state (Num 0) =
       Returned
         (Some \<lparr>startPosition = Num 0, numTotalItems = Num 500,
                 items = map ListItemImpl
                   [Num 0, Num 1, Num 2, Num 3, Num 4, Num 5, Num 6, Num 7, Num 8, Num 9,
                    Num 10, Num 11, Num 12, Num 13, Num 14, Num 15, Num 16, Num 17, Num 18, Num 19,
                    Num 20, Num 21, Num 22, Num 23, Num 24, Num 25, Num 26, Num 27, Num 28, Num 29]\<rparr>)
         (measured_state\<lparr>requests := [(Num 0, Num 30)], this_numTotalItems := Num 500\<rparr>)"
  by (simp add: initialize_measured measured_state_fields requestPageIfExists_def pageRequest_def
      getPage_awaited_def getPage_def getPage_loop.simps totalNumberItems_def num_defs)

text \<open>
  Claim C10, amended: at the boundary, where the page index times the overlap stride
  equals the cached total, \<^verbatim>\<open>requestPageIfExists\<close> takes the index as valid and issues
  a fetch whose start position is that total, whatever the data source. The sample
  \<^verbatim>\<open>getPage\<close> returns a promise that it never resolves whenever the start position is
  at or above \<^verbatim>\<open>totalNumberItems\<close>. So, with the sample source, the awaited fetch never
  completes and \<^verbatim>\<open>requestPageIfExists\<close> stays suspended when the cached total is at
  least \<^verbatim>\<open>totalNumberItems\<close>, as it is once a page of the sample source has been
  cached; when the cached total is below \<^verbatim>\<open>totalNumberItems\<close>, as at the first fetch,
  and the number of items requested is not \<^verbatim>\<open>Infinity\<close>, the fetch is fulfilled.
\<close>

theorem boundary_fetch_outcome:
  assumes "num_ge page (Num 0)"
    and "num_eq (num_mul page (overlappingElements s)) (this_numTotalItems s)"
  shows "requests (final_state (requestPageIfExists rp s page)) =
           requests s @ [(this_numTotalItems s, snd (pageRequest s page))]
       \<and> (\<forall>startPos numberItems.
             num_ge startPos totalNumberItems \<longrightarrow> getPage startPos numberItems = Some Pending)
       \<and> (num_ge (this_numTotalItems s) totalNumberItems
            \<longrightarrow> requestPageIfExists getPage_awaited s page =
                Suspended (s\<lparr>requests := requests s @ [(this_numTotalItems s, snd (pageRequest s page))]\<rparr>))
       \<and> (num_lt (this_numTotalItems s) totalNumberItems \<and> snd (pageRequest s page) \<noteq> PosInfinity
            \<longrightarrow> (\<exists>q. requestPageIfExists getPage_awaited s page =
                        Returned (Some q)
                          (s\<lparr>requests := requests s @ [(this_numTotalItems s, snd (pageRequest s page))],
                              this_numTotalItems := totalNumberItems\<rparr>)
                     \<and> startPosition q = this_numTotalItems s))"
proof -
  have start: "num_mul page (overlappingElements s) = this_numTotalItems s"
    and number: "this_numTotalItems s \<noteq> NaN"
    using assms(2) by (auto simp: num_eq_def)
  have gate: "num_le (num_mul (overlappingElements s) page) (this_numTotalItems s)"
    using start number by (simp add: num_mul_commute [of "overlappingElements s"] num_le_def num_eq_def)
  have req: "pageRequest s page = (this_numTotalItems s, snd (pageRequest s page))"
    using start fst_pageRequest [of s page] by (metis prod.collapse)
  note run = requestPageIfExists_fetch [OF assms(1) gate]
  have "requests (final_state (requestPageIfExists rp s page)) =
           requests s @ [(this_numTotalItems s, snd (pageRequest s page))]"
    using req by (simp add: run split: promise.splits)
  moreover have "\<forall>startPos numberItems.
      num_ge startPos totalNumberItems \<longrightarrow> getPage startPos numberItems = Some Pending"
    by (simp add: getPage_def)
  moreover have "requestPageIfExists getPage_awaited s page =
      Suspended (s\<lparr>requests := requests s @ [(this_numTotalItems s, snd (pageRequest s page))]\<rparr>)"
    if "num_ge (this_numTotalItems s) totalNumberItems"
  proof -
    have "getPage_awaited (fst (pageRequest s page)) (snd (pageRequest s page)) = Pending"
      using that start by (intro getPage_awaited_pending) (simp add: fst_pageRequest)
    then show ?thesis
      using req by (simp add: run)
  qed
  moreover have "\<exists>q. requestPageIfExists getPage_awaited s page =
                        Returned (Some q)
                          (s\<lparr>requests := requests s @ [(this_numTotalItems s, snd (pageRequest s page))],
                              this_numTotalItems := totalNumberItems\<rparr>)
                     \<and> startPosition q = this_numTotalItems s"
    if "num_lt (this_numTotalItems s) totalNumberItems" "snd (pageRequest s page) \<noteq> PosInfinity"
  proof -
    from that obtain q where
      "getPage_awaited (fst (pageRequest s page)) (snd (pageRequest s page)) = Fulfilled q"
      "startPosition q = fst (pageRequest s page)" "numTotalItems q = totalNumberItems"
      using getPage_awaited_fulfilled [of "fst (pageRequest s page)" "snd (pageRequest s page)"] start
      by (auto simp: fst_pageRequest)
    then show ?thesis
      using req start by (simp add: run fst_pageRequest)
  qed
  ultimately show ?thesis
    by blast
qed

theorem boundary_fetch_outcome_witness:
  "num_ge (Num 50) (Num 0)
   \<and> num_eq (num_mul (Num 50) (overlappingElements sample_state)) (this_numTotalItems sample_state)
   \<and> num_ge (this_numTotalItems sample_state) totalNumberItems
   \<and> requestPageIfExists getPage_awaited sample_state (Num 50) =
       Suspended (sample_state\<lparr>requests := [(Num 0, Num 30), (Num 10, Num 40), (Num 500, Num 40)]\<rparr>)
   \<and> getPage (Num 500) (Num 40) = Some Pending
   \<and> num_ge (Num 0) (Num 0)
   \<and> num_eq (num_mul (Num 0) (overlappingElements measured_state)) (this_numTotalItems measured_state)
   \<and> num_lt (this_numTotalItems measured_state) totalNumberItems
   \<and> (\<exists>q. requestPageIfExists getPage_awaited measured_state (Num 0) =
            Returned (Some q) (measured_state\<lparr>requests := [(Num 0, Num 30)],
                                               this_numTotalItems := totalNumberItems\<rparr>)
          \<and> startPosition q = Num 0)"
proof -
  have a: "num_ge (Num 50) (Num 0)"
    by (simp add: num_defs)
  have b: "num_eq (num_mul (Num 50) (overlappingElements sample_state)) (this_numTotalItems sample_state)"
    by (simp add: sample_state_fields num_defs)
  have c: "num_ge (this_numTotalItems sample_state) totalNumberItems"
    by (simp add: sample_state_fields totalNumberItems_def num_defs)
  have d: "num_ge (Num 500) totalNumberItems"
    by (simp add: totalNumberItems_def num_defs)
  have e: "snd (pageRequest sample_state (Num 50)) = Num 40"
    by (simp add: pageRequest_def sample_state_fields num_defs)
  have a': "num_ge (Num 0) (Num 0)"
    by (simp add: num_defs)
  have b': "num_eq (num_mul (Num 0) (overlappingElements measured_state)) (this_numTotalItems measured_state)"
    by (simp add: measured_state_fields num_defs)
  have c': "num_lt (this_numTotalItems measured_state) totalNumberItems"
    by (simp add: measured_state_fields totalNumberItems_def)
  have e': "snd (pageRequest measured_state (Num 0)) = Num 30"
    by (simp add: pageRequest_def measured_state_fields num_defs)
  from boundary_fetch_outcome [OF a b, of getPage_awaited] c d e
  have first: "requestPageIfExists getPage_awaited sample_state (Num 50) =
       Suspended (sample_state\<lparr>requests := [(Num 0, Num 30), (Num 10, Num 40), (Num 500, Num 40)]\<rparr>)"
    "getPage (Num 500) (Num 40) = Some Pending"
    by (simp_all add: sample_state_fields)
  from boundary_fetch_outcome [OF a' b', of getPage_awaited] c' e'
  have "\<exists>q. requestPageIfExists getPage_awaited measured_state (Num 0) =
            Returned (Some q) (measured_state\<lparr>requests := [(Num 0, Num 30)],
                                               this_numTotalItems := totalNumberItems\<rparr>)
          \<and> startPosition q = Num 0"
    by (simp add: measured_state_fields)
  with first a b c a' b' c' show ?thesis
    by simp
qed

section \<open>The full resynchronization\<close>

lemma requestPageIfExists_no_TypeError: "requestPageIfExists rp s page \<noteq> Threw TypeError st"
  by (simp add: requestPageIfExists_def Let_def split: prod.splits promise.splits)

lemma await_no_TypeError:
  "a \<noteq> Threw TypeError st \<Longrightarrow> (\<And>r s. a = Returned r s \<Longrightarrow> k r s \<noteq> Threw TypeError st)
   \<Longrightarrow> await a k \<noteq> Threw TypeError st"
  by (cases a) auto

lemma calculateTrackerHeight_resident:
  "currentPage s = Some cp \<Longrightarrow> \<exists>h. calculateTrackerHeight s = Inr h"
  by (simp add: calculateTrackerHeight_def Let_def)

lemma fetch_neighbours_no_TypeError:
  "await (requestPageIfExists rp s1 p1)
     (\<lambda>r s8. await (requestPageIfExists rp (f r s8) p2) (\<lambda>r s10. Returned () (g r s10)))
   \<noteq> Threw TypeError st"
  by (intro await_no_TypeError requestPageIfExists_no_TypeError) simp

lemma updatePages_valid_no_TypeError:
  assumes v: "num_ge page (Num 0)" "num_le (num_mul (overlappingElements s) page) (this_numTotalItems s)"
  shows "updatePages rp ins s page scrollY \<noteq> Threw TypeError st"
proof (cases "rp (fst (pageRequest s page)) (snd (pageRequest s page))")
  case (Fulfilled p)
  let ?s3 = "fillContent ins (s\<lparr>requests := requests s @ [pageRequest s page],
               this_numTotalItems := numTotalItems p, currentPage := Some p,
               this_startPosition := startPosition p\<rparr>)"
  have "currentPage ?s3 = Some p"
    by (simp add: fillContent_def)
  then obtain h where "calculateTrackerHeight ?s3 = Inr h"
    using calculateTrackerHeight_resident by blast
  then show ?thesis
    using Fulfilled fetch_neighbours_no_TypeError
    by (simp add: updatePages_def requestPageIfExists_fetch [OF v] Let_def)
next
  case Rejected
  then show ?thesis
    by (simp add: updatePages_def requestPageIfExists_fetch [OF v])
next
  case Pending
  then show ?thesis
    by (simp add: updatePages_def requestPageIfExists_fetch [OF v])
qed

text \<open>
  Claim C9: \<^verbatim>\<open>updatePages\<close> dereferences the current page it has just fetched without
  a test. For a target page index outside the valid range (below zero, or with its product
  with the overlap stride above the cached total, or not a number),
  \<^verbatim>\<open>requestPageIfExists\<close> returns absent, the current slot is emptied and the
  dereference throws a \<^verbatim>\<open>TypeError\<close>; for a page index inside the range no run of
  \<^verbatim>\<open>updatePages\<close> throws a \<^verbatim>\<open>TypeError\<close>, whatever the data source answers.
\<close>

theorem updatePages_absent_page_throws:
  "(\<not> (num_ge page (Num 0) \<and> num_le (num_mul page (overlappingElements s)) (this_numTotalItems s))
     \<longrightarrow> updatePages rp ins s page scrollY = Threw TypeError (s\<lparr>currentPage := None\<rparr>))
   \<and> (num_ge page (Num 0) \<and> num_le (num_mul page (overlappingElements s)) (this_numTotalItems s)
     \<longrightarrow> (\<forall>st. updatePages rp ins s page scrollY \<noteq> Threw TypeError st))"
proof (intro conjI impI allI)
  assume "\<not> (num_ge page (Num 0) \<and> num_le (num_mul page (overlappingElements s)) (this_numTotalItems s))"
  then have "requestPageIfExists rp s page = Returned None s"
    by (intro requestPageIfExists_absent) (simp add: num_mul_commute [of page])
  then show "updatePages rp ins s page scrollY = Threw TypeError (s\<lparr>currentPage := None\<rparr>)"
    by (simp add: updatePages_def)
next
  fix st
  assume "num_ge page (Num 0) \<and> num_le (num_mul page (overlappingElements s)) (this_numTotalItems s)"
  then have "num_ge page (Num 0)" "num_le (num_mul (overlappingElements s) page) (this_numTotalItems s)"
    by (simp_all add: num_mul_commute [of page])
  then show "updatePages rp ins s page scrollY \<noteq> Threw TypeError st"
    by (rule updatePages_valid_no_TypeError)
qed

theorem updatePages_absent_page_throws_witness:
  "\<not> num_le (num_mul (Num 51) (overlappingElements sample_state)) (this_numTotalItems sample_state)
   \<and> updatePages getPage_awaited insertRow sample_state (Num 51) (Num 12240) =
       Threw TypeError (sample_state\<lparr>currentPage := None\<rparr>)
   \<and> num_ge (Num 5) (Num 0)
   \<and> num_le (num_mul (Num 5) (overlappingElements sample_state)) (this_numTotalItems sample_state)
   \<and> (\<forall>st. updatePages getPage_awaited insertRow sample_state (Num 5) (Num 1280) \<noteq> Threw TypeError st)"
proof -
  have out: "\<not> num_le (num_mul (Num 51) (overlappingElements sample_state)) (this_numTotalItems sample_state)"
    by (simp add: sample_state_fields num_defs)
  have inside: "num_ge (Num 5) (Num 0)"
    "num_le (num_mul (Num 5) (overlappingElements sample_state)) (this_numTotalItems sample_state)"
    by (simp_all add: sample_state_fields num_defs)
  from updatePages_absent_page_throws [of "Num 51" sample_state getPage_awaited insertRow "Num 12240"] out
  have "updatePages getPage_awaited insertRow sample_state (Num 51) (Num 12240) =
          Threw TypeError (sample_state\<lparr>currentPage := None\<rparr>)"
    by simp
  moreover from updatePages_absent_page_throws [of "Num 5" sample_state getPage_awaited insertRow "Num 1280"] inside
  have "\<forall>st. updatePages getPage_awaited insertRow sample_state (Num 5) (Num 1280) \<noteq> Threw TypeError st"
    by simp
  ultimately show ?thesis
    using out inside by simp
qed

section \<open>Scrolling\<close>

lemma page_numbers_scrollTop [simp]:
  "pageNumberByPage (s\<lparr>scrollTop := t\<rparr>) = pageNumberByPage s"
  "pageNumberByScroll (s\<lparr>scrollTop := t\<rparr>) scrollY = pageNumberByScroll s scrollY"
  by (simp_all add: pageNumberByPage_def pageNumberByScroll_def)

lemma scrollTo_same_page:
  "num_eq (pageNumberByPage s) (pageNumberByScroll s scrollY) \<Longrightarrow>
   scrollTo rp ins s scrollY =
     Returned () (s\<lparr>scrollTop := num_rem scrollY (num_mul (overlappingElements s) (rowHeight s))\<rparr>)"
  by (simp add: scrollTo_def)

lemma scrollTo_each_same_page:
  "\<forall>y \<in> set ys. num_eq (pageNumberByPage s) (pageNumberByScroll s y) \<Longrightarrow>
   scrollTo_each rp ins s ys =
     Returned () (s\<lparr>scrollTop := (if ys = [] then scrollTop s
        else num_rem (last ys) (num_mul (overlappingElements s) (rowHeight s)))\<rparr>)"
proof (induction ys arbitrary: s)
  case Nil
  then show ?case by simp
next
  case (Cons y ys)
  let ?s' = "s\<lparr>scrollTop := num_rem y (num_mul (overlappingElements s) (rowHeight s))\<rparr>"
  have "\<forall>y \<in> set ys. num_eq (pageNumberByPage ?s') (pageNumberByScroll ?s' y)"
    using Cons.prems by simp
  from Cons.IH [OF this] Cons.prems show ?case
    by (simp add: scrollTo_same_page)
qed

lemma in_page_offset_is_modulo:
  assumes "num_eq (pageNumberByPage s) (pageNumberByScroll s (Num y))"
    and "overlappingElements s = Num ov" "rowHeight s = Num rh" "0 < ov * rh"
    and "num_ge (pageNumberByPage s) (Num 0)"
  shows "num_rem (Num y) (num_mul (overlappingElements s) (rowHeight s)) =
           Num (y - ov * rh * of_int \<lfloor>y / (ov * rh)\<rfloor>)"
proof -
  have "pageNumberByScroll s (Num y) = Num (of_int \<lfloor>y / (ov * rh)\<rfloor>)"
    using assms(2-4) by (auto simp: pageNumberByScroll_def)
  with assms(1,5) have "(0::rat) \<le> of_int \<lfloor>y / (ov * rh)\<rfloor>"
    by (auto simp: num_eq_def num_ge_Num)
  then have "0 \<le> y / (ov * rh)"
    by simp
  then have "0 \<le> y"
    using assms(4) by (simp add: zero_le_divide_iff)
  then show ?thesis
    using assms(2-4) num_rem_nonneg [of y "ov * rh"] by (simp add: mult.assoc)
qed

text \<open>
  Claim C4: a call of \<^verbatim>\<open>scrollTo\<close> whose target offset lies in the current page (the
  page number of the offset equals the page number of the current page) returns with the
  state unchanged but for the scroll position inside the viewport, which becomes the
  target offset \<^verbatim>\<open>%\<close> (overlap stride times row height); any sequence of such calls
  leaves the previous, current and next slots as they were and issues no fetch. For a
  current page number that is at least zero and a positive product of overlap stride and
  row height, that scroll position is the target offset modulo the product.
\<close>

theorem scrollTo_within_page:
  assumes "\<forall>y \<in> set (scrollY # later). num_eq (pageNumberByPage s) (pageNumberByScroll s y)"
  shows "scrollTo rp ins s scrollY =
           Returned () (s\<lparr>scrollTop := num_rem scrollY (num_mul (overlappingElements s) (rowHeight s))\<rparr>)
         \<and> scrollTo_each rp ins s (scrollY # later) =
             Returned () (s\<lparr>scrollTop := num_rem (last (scrollY # later))
                                               (num_mul (overlappingElements s) (rowHeight s))\<rparr>)
         \<and> previousPage (final_state (scrollTo_each rp ins s (scrollY # later))) = previousPage s
         \<and> currentPage (final_state (scrollTo_each rp ins s (scrollY # later))) = currentPage s
         \<and> nextPage (final_state (scrollTo_each rp ins s (scrollY # later))) = nextPage s
         \<and> requests (final_state (scrollTo_each rp ins s (scrollY # later))) = requests s
         \<and> (\<forall>y ov rh. scrollY = Num y \<and> overlappingElements s = Num ov \<and> rowHeight s = Num rh
                \<and> 0 < ov * rh \<and> num_ge (pageNumberByPage s) (Num 0)
              \<longrightarrow> num_rem scrollY (num_mul (overlappingElements s) (rowHeight s)) =
                    Num (y - ov * rh * of_int \<lfloor>y / (ov * rh)\<rfloor>))"
proof -
  have "num_eq (pageNumberByPage s) (pageNumberByScroll s scrollY)"
    using assms by simp
  then have "\<forall>y ov rh. scrollY = Num y \<and> overlappingElements s = Num ov \<and> rowHeight s = Num rh
                \<and> 0 < ov * rh \<and> num_ge (pageNumberByPage s) (Num 0)
              \<longrightarrow> num_rem scrollY (num_mul (overlappingElements s) (rowHeight s)) =
                    Num (y - ov * rh * of_int \<lfloor>y / (ov * rh)\<rfloor>)"
    using in_page_offset_is_modulo [of s] by blast
  then show ?thesis
    using scrollTo_each_same_page [OF assms, of rp ins] scrollTo_same_page [of s scrollY rp ins] assms
    by auto
qed

theorem scrollTo_within_page_witness:
  "num_eq (pageNumberByPage sample_state) (pageNumberByScroll sample_state (Num 100))
   \<and> num_eq (pageNumberByPage sample_state) (pageNumberByScroll sample_state (Num 0))
   \<and> num_eq (pageNumberByPage sample_state) (pageNumberByScroll sample_state (Num 239))
   \<and> scrollTo getPage_awaited insertRow sample_state (Num 100) =
       Returned () (sample_state\<lparr>scrollTop := Num 100\<rparr>)
   \<and> scrollTo_each getPage_awaited insertRow sample_state [Num 100, Num 0, Num 239] =
       Returned () (sample_state\<lparr>scrollTop := Num 239\<rparr>)
   \<and> requests (final_state (scrollTo_each getPage_awaited insertRow sample_state
                   [Num 100, Num 0, Num 239])) = [(Num 0, Num 30), (Num 10, Num 40)]"
proof -
  have same: "num_eq (pageNumberByPage sample_state) (pageNumberByScroll sample_state (Num 100))"
    "num_eq (pageNumberByPage sample_state) (pageNumberByScroll sample_state (Num 0))"
    "num_eq (pageNumberByPage sample_state) (pageNumberByScroll sample_state (Num 239))"
    by (simp_all add: pageNumberByPage_def pageNumberByScroll_def sample_state_fields num_defs)
  then have all: "\<forall>y \<in> set (Num 100 # [Num 0, Num 239]).
      num_eq (pageNumberByPage sample_state) (pageNumberByScroll sample_state y)"
    by simp
  from scrollTo_within_page [OF all, of getPage_awaited insertRow] same show ?thesis
    by (simp add: sample_state_fields rat_trunc_def del: scrollTo_each.simps)
qed

text \<open>
  Claim C3, as the specification states it: whenever the target offset lies in the page
  after the current one and the next slot is resident, \<^verbatim>\<open>scrollTo\<close> slides the window
  forward, issues exactly one fetch and repaints the viewport. On the sample page in the
  viewport of ten rows, with page 48 current and page 49 resident as next, the target
  offset 11760 lies in page 49. The slots slide, and the fetch for page 50 is issued at
  position 500, where the sample \<^verbatim>\<open>getPage\<close> leaves its promise unsettled: the call
  stays suspended, the rows of page 48 stay in the content and the scroll position is not
  set. Had the cached total been 495, page 50 would not pass the test of
  \<^verbatim>\<open>requestPageIfExists\<close>, and no fetch at all would be issued.
\<close>

theorem scrollTo_slide_forward_may_not_fetch_or_repaint:
  "nextPage compact_state_48 \<noteq> None
   \<and> pageNumberByPage compact_state_48 = Num 48
   \<and> pageNumberByScroll compact_state_48 (Num 11760) = Num 49
   \<and> scrollTo getPage_awaited insertRow compact_state_48 (Num 11760) =
       Suspended (compact_state_48\<lparr>previousPage := currentPage compact_state_48,
                    currentPage := nextPage compact_state_48, this_startPosition := Num 490,
                    requests := requests compact_state_48 @ [(Num 500, Num 30)]\<rparr>)
   \<and> requests (final_state (scrollTo getPage_awaited insertRow
                   (compact_state_48\<lparr>this_numTotalItems := Num 495\<rparr>) (Num 11760))) =
       requests compact_state_48"
proof -
  obtain nx where nx: "nextPage compact_state_48 = Some nx" "startPosition nx = Num 490"
    using compact_state_48_fields(8) by auto
  have pages: "pageNumberByPage compact_state_48 = Num 48"
    "pageNumberByScroll compact_state_48 (Num 11760) = Num 49"
    by (simp_all add: compact_state_48_fields scroll_defs)
  have "scrollTo getPage_awaited insertRow compact_state_48 (Num 11760) =
       Suspended (compact_state_48\<lparr>previousPage := currentPage compact_state_48,
                    currentPage := nextPage compact_state_48, this_startPosition := Num 490,
                    requests := requests compact_state_48 @ [(Num 500, Num 30)]\<rparr>)"
    by (simp add: scrollTo_def pages nx compact_state_48_fields requestPageIfExists_def pageRequest_def
        getPage_awaited_def getPage_def totalNumberItems_def num_defs)
  moreover have "requests (final_state (scrollTo getPage_awaited insertRow
                   (compact_state_48\<lparr>this_numTotalItems := Num 495\<rparr>) (Num 11760))) =
       requests compact_state_48"
    using pages
    by (simp add: scrollTo_def pageNumberByPage_def pageNumberByScroll_def nx compact_state_48_fields
        requestPageIfExists_def num_defs fillContent_def)
  ultimately show ?thesis
    using nx pages by simp
qed

text \<open>
  Claim C3, amended: whenever the target offset lies in the page after the current one
  (and not in the current page, which is tested first) and the next slot is resident,
  \<^verbatim>\<open>scrollTo\<close> slides the window forward: the previous slot takes the old current page,
  the current slot takes the old next page. No fetch is issued for the current or the
  previous slot. For the next slot one fetch is issued, at the target page index plus one,
  when that index passes the test of \<^verbatim>\<open>requestPageIfExists\<close>; otherwise none is issued
  and the next slot becomes absent. The viewport is repainted with the rows of the new
  current page, and scrolled to the target offset \<^verbatim>\<open>%\<close> (overlap stride times row
  height), when no fetch is issued and when the fetch is fulfilled; when the fetch is
  rejected or never settles the slots have slid and nothing else has changed.
\<close>

theorem scrollTo_slide_forward:
  fixes s :: "('a, 'e) VerticalScrollController"
  assumes "nextPage s = Some nx"
    and "\<not> num_eq (pageNumberByPage s) (pageNumberByScroll s scrollY)"
    and "num_eq (num_add (pageNumberByPage s) (Num 1)) (pageNumberByScroll s scrollY)"
  defines "page \<equiv> num_add (pageNumberByScroll s scrollY) (Num 1)"
    and "slid \<equiv> s\<lparr>previousPage := currentPage s, currentPage := Some nx,
                    this_startPosition := startPosition nx\<rparr>"
    and "inPage \<equiv> num_rem scrollY (num_mul (overlappingElements s) (rowHeight s))"
  defines "fetched \<equiv> slid\<lparr>requests := requests s @ [pageRequest s page]\<rparr>"
  shows "previousPage (final_state (scrollTo rp ins s scrollY)) = currentPage s
       \<and> currentPage (final_state (scrollTo rp ins s scrollY)) = Some nx
       \<and> (if num_ge page (Num 0) \<and> num_le (num_mul page (overlappingElements s)) (this_numTotalItems s)
          then requests (final_state (scrollTo rp ins s scrollY)) = requests s @ [pageRequest s page]
             \<and> scrollTo rp ins s scrollY =
                 (case rp (fst (pageRequest s page)) (snd (pageRequest s page)) of
                    Fulfilled p \<Rightarrow>
                      Returned () (fetched\<lparr>this_numTotalItems := numTotalItems p, nextPage := Some p,
                                            scrollTop := inPage, content := map ins (items nx)\<rparr>)
                  | Rejected \<Rightarrow> Threw FetchRejected fetched
                  | Pending \<Rightarrow> Suspended fetched)
          else scrollTo rp ins s scrollY =
                 Returned () (slid\<lparr>nextPage := None, scrollTop := inPage,
                                    content := map ins (items nx)\<rparr>))"
proof -
  have pr: "pageRequest slid page = pageRequest s page"
    by (simp add: pageRequest_def slid_def Let_def)
  have step: "scrollTo rp ins s scrollY =
      await (requestPageIfExists rp slid page)
        (\<lambda>r s4. Returned () (fillContent ins (s4\<lparr>nextPage := r,
            scrollTop := num_rem scrollY (num_mul (overlappingElements s4) (rowHeight s4))\<rparr>)))"
    using assms(1-3) unfolding scrollTo_def page_def slid_def by (simp add: Let_def)
  have slid_fields: "previousPage slid = currentPage s" "currentPage slid = Some nx"
    "overlappingElements slid = overlappingElements s" "rowHeight slid = rowHeight s"
    "this_numTotalItems slid = this_numTotalItems s" "requests slid = requests s"
    by (simp_all add: slid_def)
  show ?thesis
  proof (cases "num_ge page (Num 0) \<and> num_le (num_mul page (overlappingElements s)) (this_numTotalItems s)")
    case True
    then have v: "num_ge page (Num 0)"
      "num_le (num_mul (overlappingElements slid) page) (this_numTotalItems slid)"
      by (simp_all add: num_mul_commute [of page] slid_fields)
    show ?thesis
      unfolding step requestPageIfExists_fetch [OF v] pr fetched_def inPage_def
      using True by (simp add: fillContent_def slid_fields split: promise.splits)
  next
    case False
    then have "requestPageIfExists rp slid page = Returned None slid"
      by (intro requestPageIfExists_absent) (simp add: num_mul_commute [of page] slid_fields)
    then show ?thesis
      unfolding step inPage_def using False by (simp add: fillContent_def slid_fields)
  qed
qed

theorem scrollTo_slide_forward_witness:
  "nextPage sample_state \<noteq> None
   \<and> \<not> num_eq (pageNumberByPage sample_state) (pageNumberByScroll sample_state (Num 250))
   \<and> num_eq (num_add (pageNumberByPage sample_state) (Num 1)) (pageNumberByScroll sample_state (Num 250))
   \<and> previousPage (final_state (scrollTo getPage_awaited insertRow sample_state (Num 250))) =
       currentPage sample_state
   \<and> currentPage (final_state (scrollTo getPage_awaited insertRow sample_state (Num 250))) =
       nextPage sample_state
   \<and> requests (final_state (scrollTo getPage_awaited insertRow sample_state (Num 250))) =
       [(Num 0, Num 30), (Num 10, Num 40), (Num 20, Num 40)]
   \<and> scrollTop (final_state (scrollTo getPage_awaited insertRow sample_state (Num 250))) = Num 10
   \<and> map_option startPosition
         (nextPage (final_state (scrollTo getPage_awaited insertRow sample_state (Num 250)))) =
       Some (Num 20)"
proof -
  obtain nx where nx: "nextPage sample_state = Some nx"
    using sample_state_fields(14) by auto
  have pages: "pageNumberByPage sample_state = Num 0" "pageNumberByScroll sample_state (Num 250) = Num 1"
    by (simp_all add: pageNumberByPage_def pageNumberByScroll_def sample_state_fields)
  have adj: "\<not> num_eq (pageNumberByPage sample_state) (pageNumberByScroll sample_state (Num 250))"
    "num_eq (num_add (pageNumberByPage sample_state) (Num 1)) (pageNumberByScroll sample_state (Num 250))"
    by (simp_all add: pages num_defs)
  have req: "pageRequest sample_state (Num 2) = (Num 20, Num 40)"
    by (simp add: pageRequest_def sample_state_fields num_defs)
  have "\<exists>p. getPage_awaited (Num 20) (Num 40) = Fulfilled p \<and> startPosition p = Num 20"
    by (simp add: getPage_awaited_def getPage_def getPage_loop.simps totalNumberItems_def num_defs)
  then obtain p where p: "getPage_awaited (Num 20) (Num 40) = Fulfilled p" "startPosition p = Num 20"
    by blast
  from scrollTo_slide_forward [OF nx adj, of getPage_awaited insertRow]
  have "previousPage (final_state (scrollTo getPage_awaited insertRow sample_state (Num 250))) =
       currentPage sample_state
   \<and> currentPage (final_state (scrollTo getPage_awaited insertRow sample_state (Num 250))) =
       nextPage sample_state
   \<and> requests (final_state (scrollTo getPage_awaited insertRow sample_state (Num 250))) =
       [(Num 0, Num 30), (Num 10, Num 40), (Num 20, Num 40)]
   \<and> scrollTop (final_state (scrollTo getPage_awaited insertRow sample_state (Num 250))) = Num 10
   \<and> map_option startPosition
         (nextPage (final_state (scrollTo getPage_awaited insertRow sample_state (Num 250)))) =
       Some (Num 20)"
    by (simp add: pages req p nx sample_state_fields num_defs rat_trunc_def)
  with nx adj show ?thesis by simp
qed

section \<open>Dragging the tracker to the bottom\<close>








section \<open>The height of the tracker\<close>

text \<open>
  Claim C6, as the specification states it: for all heights of the content and of the
  viewport, the tracker height is 0 when their quotient is at least 1 and otherwise at
  least \<^verbatim>\<open>MIN_TRACKER_HEIGHT\<close>. While the list is not displayed both heights are zero;
  the quotient 0 / 0 is \<^verbatim>\<open>NaN\<close>, which is not at least 1, and the tracker height is
  \<^verbatim>\<open>NaN\<close>, which is not at least \<^verbatim>\<open>MIN_TRACKER_HEIGHT\<close>.
\<close>

theorem calculateTrackerHeight_not_a_number:
  "clientHeight hidden_state = Num 0
   \<and> rowHeight hidden_state = Num 0
   \<and> map_option numTotalItems (currentPage hidden_state) = Some (Num 500)
   \<and> \<not> num_ge (num_div (Num 0) (num_mul (Num 0) (Num 500))) (Num 1)
   \<and> calculateTrackerHeight hidden_state = Inr NaN
   \<and> \<not> num_ge NaN MIN_TRACKER_HEIGHT"
  by (simp add: hidden_state_fields num_defs MIN_TRACKER_HEIGHT_def)

text \<open>
  Claim C6, amended: for all heights of the content and of the viewport whose quotient
  \<^verbatim>\<open>viewportHeight / totalContentHeight\<close> is a number (not \<^verbatim>\<open>NaN\<close>, as 0 / 0 is), the
  tracker height is 0 when the quotient is at least 1, and otherwise it is the greater of
  \<^verbatim>\<open>MIN_TRACKER_HEIGHT\<close> and the quotient times the viewport height: it is one of the
  two and at least both. \<^verbatim>\<open>MIN_TRACKER_HEIGHT\<close> is 30.
\<close>

theorem calculateTrackerHeight_value:
  assumes "currentPage s = Some cp"
    and "num_div (clientHeight s) (num_mul (rowHeight s) (numTotalItems cp)) \<noteq> NaN"
  defines "proportion \<equiv> num_div (clientHeight s) (num_mul (rowHeight s) (numTotalItems cp))"
  shows "\<exists>h. calculateTrackerHeight s = Inr h
           \<and> (if num_ge proportion (Num 1) then h = Num 0
               else (h = MIN_TRACKER_HEIGHT \<or> h = num_mul proportion (clientHeight s))
                  \<and> num_ge h MIN_TRACKER_HEIGHT
                  \<and> num_ge h (num_mul proportion (clientHeight s)))
       \<and> MIN_TRACKER_HEIGHT = Num 30"
  using assms(1,2) unfolding proportion_def
  by (cases "clientHeight s"; cases "num_mul (rowHeight s) (numTotalItems cp)")
     (auto simp: calculateTrackerHeight_def Let_def MIN_TRACKER_HEIGHT_def num_defs)


theorem calculateTrackerHeight_value_witness:
  "num_div (clientHeight sample_state) (num_mul (rowHeight sample_state) (Num 500)) = Num (1 / 25)
   \<and> \<not> num_ge (Num (1 / 25)) (Num 1)
   \<and> num_mul (Num (1 / 25)) (clientHeight sample_state) = Num (96 / 5)
   \<and> calculateTrackerHeight sample_state = Inr (Num 30)
   \<and> num_ge (Num 30) MIN_TRACKER_HEIGHT"
proof -
  obtain cp where cp: "currentPage sample_state = Some cp" "numTotalItems cp = Num 500"
    using sample_state_geometry(1) by auto
  have p: "num_div (clientHeight sample_state) (num_mul (rowHeight sample_state) (numTotalItems cp)) = Num (1 / 25)"
    by (simp add: sample_state_fields cp)
  then have "num_div (clientHeight sample_state) (num_mul (rowHeight sample_state) (numTotalItems cp)) \<noteq> NaN"
    by simp
  from calculateTrackerHeight_value [OF cp(1) this] p
  have "calculateTrackerHeight sample_state = Inr (Num 30) \<and> num_ge (Num 30) MIN_TRACKER_HEIGHT"
    by (auto simp: sample_state_fields num_defs MIN_TRACKER_HEIGHT_def)
  with p cp show ?thesis
    by (simp add: sample_state_fields num_defs)
qed

section \<open>A row height of zero\<close>

lemma final_state_await:
  "Q (final_state a) \<Longrightarrow> (\<And>r s. a = Returned r s \<Longrightarrow> Q (final_state (k r s)))
   \<Longrightarrow> Q (final_state (await a k))"
  by (cases a) simp_all

lemma requestPageIfExists_keeps:
  "rowHeight (final_state (requestPageIfExists rp s page)) = rowHeight s
   \<and> numVisibleItems (final_state (requestPageIfExists rp s page)) = numVisibleItems s
   \<and> (\<exists>more. requests (final_state (requestPageIfExists rp s page)) = requests s @ more)"
  by (simp add: requestPageIfExists_def Let_def split: prod.splits promise.splits)

lemma requestPageIfExists_Returned_keeps:
  "requestPageIfExists rp s page = Returned r s1 \<Longrightarrow>
   rowHeight s1 = rowHeight s \<and> numVisibleItems s1 = numVisibleItems s
   \<and> (\<exists>more. requests s1 = requests s @ more)"
  using requestPageIfExists_keeps [of rp s page] by simp

lemma fetch_neighbours_keep:
  assumes "\<And>r s8. rowHeight (f r s8) = rowHeight s8 \<and> numVisibleItems (f r s8) = numVisibleItems s8
            \<and> requests (f r s8) = requests s8"
    and "\<And>r s8. rowHeight (g r s8) = rowHeight s8 \<and> numVisibleItems (g r s8) = numVisibleItems s8
            \<and> requests (g r s8) = requests s8"
  shows "rowHeight (final_state (await (requestPageIfExists rp s7 p1)
           (\<lambda>r s8. await (requestPageIfExists rp (f r s8) p2) (\<lambda>r s10. Returned () (g r s10))))) = rowHeight s7
       \<and> numVisibleItems (final_state (await (requestPageIfExists rp s7 p1)
           (\<lambda>r s8. await (requestPageIfExists rp (f r s8) p2) (\<lambda>r s10. Returned () (g r s10))))) = numVisibleItems s7
       \<and> (\<exists>more. requests (final_state (await (requestPageIfExists rp s7 p1)
           (\<lambda>r s8. await (requestPageIfExists rp (f r s8) p2) (\<lambda>r s10. Returned () (g r s10))))) = requests s7 @ more)"
proof (rule final_state_await)
  show "rowHeight (final_state (requestPageIfExists rp s7 p1)) = rowHeight s7 \<and>
    numVisibleItems (final_state (requestPageIfExists rp s7 p1)) = numVisibleItems s7 \<and>
    (\<exists>more. requests (final_state (requestPageIfExists rp s7 p1)) = requests s7 @ more)"
    by (rule requestPageIfExists_keeps)
next
  fix r s8
  assume a: "requestPageIfExists rp s7 p1 = Returned r s8"
  note k1 = requestPageIfExists_Returned_keeps [OF a]
  show "rowHeight (final_state (await (requestPageIfExists rp (f r s8) p2) (\<lambda>r s10. Returned () (g r s10)))) = rowHeight s7 \<and>
       numVisibleItems (final_state (await (requestPageIfExists rp (f r s8) p2) (\<lambda>r s10. Returned () (g r s10)))) = numVisibleItems s7 \<and>
       (\<exists>more. requests (final_state (await (requestPageIfExists rp (f r s8) p2) (\<lambda>r s10. Returned () (g r s10)))) = requests s7 @ more)"
  proof (rule final_state_await)
    show "rowHeight (final_state (requestPageIfExists rp (f r s8) p2)) = rowHeight s7 \<and>
      numVisibleItems (final_state (requestPageIfExists rp (f r s8) p2)) = numVisibleItems s7 \<and>
      (\<exists>more. requests (final_state (requestPageIfExists rp (f r s8) p2)) = requests s7 @ more)"
      using requestPageIfExists_keeps [of rp "f r s8" p2] k1 assms(1) [of r s8] by auto
  next
    fix r' s10
    assume b: "requestPageIfExists rp (f r s8) p2 = Returned r' s10"
    show "rowHeight (final_state (Returned () (g r' s10))) = rowHeight s7 \<and>
       numVisibleItems (final_state (Returned () (g r' s10))) = numVisibleItems s7 \<and>
       (\<exists>more. requests (final_state (Returned () (g r' s10))) = requests s7 @ more)"
      using requestPageIfExists_Returned_keeps [OF b] k1 assms(1) [of r s8] assms(2) [of r' s10] by auto
  qed
qed

lemma updatePages_keeps:
  assumes gate: "num_ge page (Num 0)"
    "num_le (num_mul (overlappingElements s) page) (this_numTotalItems s)"
  shows "rowHeight (final_state (updatePages rp ins s page scrollY)) = rowHeight s
       \<and> numVisibleItems (final_state (updatePages rp ins s page scrollY)) = numVisibleItems s
       \<and> (\<exists>more. requests (final_state (updatePages rp ins s page scrollY)) =
                    requests s @ pageRequest s page # more)"
proof (cases "rp (fst (pageRequest s page)) (snd (pageRequest s page))")
  case (Fulfilled p)
  let ?s3 = "fillContent ins (s\<lparr>requests := requests s @ [pageRequest s page],
               this_numTotalItems := numTotalItems p, currentPage := Some p,
               this_startPosition := startPosition p\<rparr>)"
  have "currentPage ?s3 = Some p"
    by (simp add: fillContent_def)
  then obtain h where h: "calculateTrackerHeight ?s3 = Inr h"
    using calculateTrackerHeight_resident by blast
  let ?s7 = "?s3\<lparr>trackableHeight := num_sub (clientHeight s) h,
      extrapolateFactor := num_div (num_sub (num_mul (rowHeight ?s3) (numTotalItems p)) (clientHeight s))
                                   (num_sub (clientHeight s) h),
      height := h,
      scrollTop := num_rem scrollY (num_mul (overlappingElements ?s3) (rowHeight ?s3))\<rparr>"
  have run: "updatePages rp ins s page scrollY =
      await (requestPageIfExists rp ?s7 (num_add page (Num 1)))
        (\<lambda>r s8. await (requestPageIfExists rp (s8\<lparr>nextPage := r\<rparr>) (num_sub page (Num 1)))
           (\<lambda>r s10. Returned () (s10\<lparr>previousPage := r\<rparr>)))"
    using Fulfilled h by (simp add: updatePages_def requestPageIfExists_fetch [OF gate] Let_def)
  have s7: "rowHeight ?s7 = rowHeight s" "numVisibleItems ?s7 = numVisibleItems s"
    "requests ?s7 = requests s @ [pageRequest s page]"
    by (simp_all add: fillContent_def)
  show ?thesis
    unfolding run
    using fetch_neighbours_keep [of "\<lambda>r s8. s8\<lparr>nextPage := r\<rparr>" "\<lambda>r s10. s10\<lparr>previousPage := r\<rparr>"
        rp ?s7 "num_add page (Num 1)" "num_sub page (Num 1)"]
    by (simp add: s7)
next
  case Rejected
  then show ?thesis
    by (simp add: updatePages_def requestPageIfExists_fetch [OF gate])
next
  case Pending
  then show ?thesis
    by (simp add: updatePages_def requestPageIfExists_fetch [OF gate])
qed

text \<open>
  Claim C7, as the specification states it: initialization fails with a configuration
  error when the measured row height is zero, and the zero is never used as a divisor.
  With rows measured at zero in the viewport of 480 pixels, \<^verbatim>\<open>initialize\<close> throws
  nothing: it divides 480 by zero, takes \<^verbatim>\<open>Infinity\<close> for the number of visible items
  and requests \<^verbatim>\<open>Infinity\<close> items at position 0, a call in which the loop of the sample
  \<^verbatim>\<open>getPage\<close> never ends. While the list is not displayed (viewport and rows of height
  zero) \<^verbatim>\<open>initialize\<close> returns normally, with a row height of zero and with \<^verbatim>\<open>NaN\<close>
  for the number of visible items and for \<^verbatim>\<open>extrapolateFactor\<close>.
\<close>

theorem initialize_accepts_zero_rowHeight:
  "rows_of_0 (insertRow (ListItemImpl (Num 92345))) = Num 0
   \<and> initialize getPage_awaited insertRow rows_of_0 (constructor (Num 480)) (ListItemImpl (Num 92345)) =
       Suspended ((constructor (Num 480))\<lparr>rowHeight := Num 0, numVisibleItems := PosInfinity,
                    requests := [(Num 0, PosInfinity)]\<rparr>)
   \<and> initialize getPage_awaited insertRow rows_of_0 (constructor (Num 0)) (ListItemImpl (Num 92345)) =
       Returned () hidden_state
   \<and> rowHeight hidden_state = Num 0
   \<and> numVisibleItems hidden_state = NaN
   \<and> extrapolateFactor hidden_state = NaN"
proof -
  have "getPage_awaited (Num 0) PosInfinity = Pending"
    by (simp add: getPage_awaited_def getPage_endless totalNumberItems_def num_defs)
  then have "initialize getPage_awaited insertRow rows_of_0 (constructor (Num 480)) (ListItemImpl (Num 92345)) =
       Suspended ((constructor (Num 480))\<lparr>rowHeight := Num 0, numVisibleItems := PosInfinity,
                    requests := [(Num 0, PosInfinity)]\<rparr>)"
    by (simp add: initialize_def calculateEntryHeight_def rows_of_0_def constructor_def updatePages_def
        requestPageIfExists_def pageRequest_def num_defs Let_def)
  then show ?thesis
    by (simp add: hidden_state_fields rows_of_0_def)
qed

text \<open>
  Claim C7, amended: \<^verbatim>\<open>initialize\<close> does not check the measured row height. When it is
  zero, no configuration error is raised (the only exception that a run of
  \<^verbatim>\<open>initialize\<close> can end with is the rejection of a fetch by the data source): the zero
  is stored as the row height and used as a divisor at once, the number of visible items
  becomes \<^verbatim>\<open>Math.ceil(viewportHeight / 0)\<close>, which is \<^verbatim>\<open>Infinity\<close> for a viewport of
  positive height, and page 0 is requested with that number plus the overlap stride.
\<close>

theorem initialize_zero_rowHeight:
  fixes rp :: "'a RequestPage" and ins :: "('a, 'e) InsertRow"
  assumes "clientHeightOf (ins dummyEntry) = Num 0"
  shows "(\<forall>e st. initialize rp ins clientHeightOf (constructor v) dummyEntry = Threw e st
            \<longrightarrow> e = FetchRejected)
       \<and> rowHeight (final_state (initialize rp ins clientHeightOf (constructor v) dummyEntry)) = Num 0
       \<and> numVisibleItems (final_state (initialize rp ins clientHeightOf (constructor v) dummyEntry)) =
           Math_ceil (num_div v (Num 0))
       \<and> (\<exists>more. requests (final_state (initialize rp ins clientHeightOf (constructor v) dummyEntry)) =
                    (Num 0, num_add (Math_ceil (num_div v (Num 0))) (Num 10)) # more)
       \<and> (\<forall>h. v = Num h \<and> 0 < h
            \<longrightarrow> numVisibleItems (final_state (initialize rp ins clientHeightOf (constructor v) dummyEntry)) =
                PosInfinity)"
proof -
  let ?s3 = "(constructor v :: ('a, 'e) VerticalScrollController)
               \<lparr>rowHeight := Num 0, numVisibleItems := Math_ceil (num_div v (Num 0))\<rparr>"
  have init: "initialize rp ins clientHeightOf (constructor v) dummyEntry =
                updatePages rp ins ?s3 (Num 0) (Num 0)"
    using assms by (simp add: initialize_def calculateEntryHeight_def Let_def constructor_def)
  have gate: "num_ge (Num 0) (Num 0)"
    "num_le (num_mul (overlappingElements ?s3) (Num 0)) (this_numTotalItems ?s3)"
    by (simp_all add: constructor_def num_le_Num num_ge_Num)
  have req: "pageRequest ?s3 (Num 0) = (Num 0, num_add (Math_ceil (num_div v (Num 0))) (Num 10))"
    by (simp add: pageRequest_def constructor_def num_defs)
  have no_type_error: "updatePages rp ins ?s3 (Num 0) (Num 0) \<noteq> Threw TypeError st" for st
    by (rule updatePages_valid_no_TypeError [OF gate])
  have "e = FetchRejected" if "updatePages rp ins ?s3 (Num 0) (Num 0) = Threw e st" for e st
    using that no_type_error [of st] by (cases e) simp_all
  moreover have "Math_ceil (num_div (Num h) (Num 0)) = PosInfinity" if "0 < h" for h
    using that by (simp add: num_defs)
  ultimately show ?thesis
    unfolding init using updatePages_keeps [OF gate, of rp ins "Num 0"] req
    by (auto simp: constructor_def)
qed

theorem initialize_zero_rowHeight_witness:
  "rows_of_0 (insertRow (ListItemImpl (Num 92345))) = Num 0
   \<and> rowHeight (final_state (initialize getPage_awaited insertRow rows_of_0 (constructor (Num 480))
        (ListItemImpl (Num 92345)))) = Num 0
   \<and> numVisibleItems (final_state (initialize getPage_awaited insertRow rows_of_0 (constructor (Num 480))
        (ListItemImpl (Num 92345)))) = PosInfinity
   \<and> (\<exists>more. requests (final_state (initialize getPage_awaited insertRow rows_of_0 (constructor (Num 480))
        (ListItemImpl (Num 92345)))) = (Num 0, PosInfinity) # more)"
proof -
  have zero: "rows_of_0 (insertRow (ListItemImpl (Num 92345))) = Num 0"
    by (simp add: rows_of_0_def)
  from initialize_zero_rowHeight [where clientHeightOf = rows_of_0 and ins = insertRow
      and dummyEntry = "ListItemImpl (Num 92345)" and rp = getPage_awaited and v = "Num 480"] zero
  show ?thesis
    by (simp add: num_defs)
qed

section \<open>Wheel events during a drag\<close>

text \<open>
  Claim C8: the drag handler and the wheel handler work on one shared tracker offset, so
  that each handler starts from the offset that the handler before it left behind. The
  code breaks this when a wheel event arrives during a drag: \<^verbatim>\<open>onTrackerMove\<close> puts the
  tracker at the offset 5 and leaves \<^verbatim>\<open>this.lastMargin\<close> at 0, the offset from which
  the drag started; \<^verbatim>\<open>onScrollWheel\<close> starts from \<^verbatim>\<open>this.lastMargin\<close>, and with a
  delta of zero it puts the tracker back at the offset 0.
\<close>

theorem wheel_during_drag_starts_from_stale_offset:
  "marginTop dragged_state = Num 5 \<and> lastMargin dragged_state = Num 0
   \<and> marginTop wheeled_state = Num 0 \<and> lastMargin wheeled_state = Num 0"
proof -
  have d: "marginTop dragged_state = Num 5" "lastMargin dragged_state = Num 0"
    "extrapolateFactor dragged_state = Num (128 / 5)" "trackableHeight dragged_state = Num 450"
    "rowHeight dragged_state = Num 24" "overlappingElements dragged_state = Num 10"
    "this_startPosition dragged_state = Num 0"
    by (simp_all add: dragged_state_def onTrackerMove_def onTrackerDown_def clampMargin_def
        sample_state_fields scroll_defs num_defs)
  have "marginTop wheeled_state = Num 0 \<and> lastMargin wheeled_state = Num 0"
    by (simp add: wheeled_state_def onScrollWheel_def clampMargin_def d scroll_defs num_defs Let_def)
  with d show ?thesis by simp
qed

end
